theory Spec2Isabelle
  imports Complex_Main
begin

section \<open>Spectral energy density engine of h-walk/SDA\<close>

text \<open>
  This theory embeds the spectral transform engine of the repository
  (\<^verbatim>\<open>src/psa/core/sed_calculator.py\<close>, class \<^verbatim>\<open>SEDCalculator\<close>, and the legacy script
  \<^verbatim>\<open>SDA.py\<close>) and proves properties of it.

  Conventions of the embedding:
  \<^item> NumPy floating point numbers are real numbers and complex floating point numbers are
    complex numbers; a cast such as \<^verbatim>\<open>astype(np.float32)\<close> is the identity. All statements are
    therefore about the exact arithmetic the code approximates.
  \<^item> An n-dimensional array is a nested list, outermost axis first.
  \<^item> A raised exception is the left injection of a sum type.
\<close>

subsection \<open>Errors and NumPy helpers\<close>

datatype error = ValueError | IndexError

text \<open>\<^verbatim>\<open>np.isclose(a, b)\<close> with the default tolerances \<^verbatim>\<open>rtol=1e-05, atol=1e-08\<close>.\<close>

definition isclose :: "real \<Rightarrow> real \<Rightarrow> bool" where
  "isclose a b = (\<bar>a - b\<bar> \<le> 1 / 10 ^ 8 + (1 / 10 ^ 5) * \<bar>b\<bar>)"

text \<open>Python's \<^verbatim>\<open>x % m\<close> on floats: the result has the sign of the divisor.\<close>

definition py_fmod :: "real \<Rightarrow> real \<Rightarrow> real" where
  "py_fmod x m = x - m * of_int \<lfloor>x / m\<rfloor>"

text \<open>
  \<^verbatim>\<open>np.angle(z)\<close> is \<^verbatim>\<open>arctan2(z.imag, z.real)\<close>: the argument in \<open>(-\<pi>, \<pi>]\<close>, and 0 at 0.
\<close>

definition np_angle :: "complex \<Rightarrow> real" where
  "np_angle z = Arg z"

subsection \<open>Vectors with three components\<close>

type_synonym vec3 = "real \<times> real \<times> real"

fun dot3 :: "vec3 \<Rightarrow> vec3 \<Rightarrow> real" where
  "dot3 (x1, y1, z1) (x2, y2, z2) = x1 * x2 + y1 * y2 + z1 * z2"

fun cross3 :: "vec3 \<Rightarrow> vec3 \<Rightarrow> vec3" where
  "cross3 (x1, y1, z1) (x2, y2, z2) = (y1 * z2 - z1 * y2, z1 * x2 - x1 * z2, x1 * y2 - y1 * x2)"

fun scale3 :: "real \<Rightarrow> vec3 \<Rightarrow> vec3" where
  "scale3 s (x, y, z) = (s * x, s * y, s * z)"

fun vdiv3 :: "vec3 \<Rightarrow> real \<Rightarrow> vec3" where
  "vdiv3 (x, y, z) d = (x / d, y / d, z / d)"

fun add3 :: "vec3 \<Rightarrow> vec3 \<Rightarrow> vec3" where
  "add3 (x1, y1, z1) (x2, y2, z2) = (x1 + x2, y1 + y2, z1 + z2)"

fun sub3 :: "vec3 \<Rightarrow> vec3 \<Rightarrow> vec3" where
  "sub3 (x1, y1, z1) (x2, y2, z2) = (x1 - x2, y1 - y2, z1 - z2)"

text \<open>\<^verbatim>\<open>np.linalg.norm(v)\<close>.\<close>

definition norm3 :: "vec3 \<Rightarrow> real" where
  "norm3 v = sqrt (dot3 v v)"

text \<open>Component \<^verbatim>\<open>v[pol]\<close> for \<^verbatim>\<open>pol\<close> in \<^verbatim>\<open>range(3)\<close>.\<close>

fun comp3 :: "vec3 \<Rightarrow> nat \<Rightarrow> real" where
  "comp3 (x, y, z) pol = (if pol = 0 then x else if pol = 1 then y else z)"

text \<open>A 3\<open>\<times>\<close>3 matrix is the triple of its rows; \<^verbatim>\<open>np.linalg.det\<close> is the cofactor expansion.\<close>

type_synonym mat3 = "vec3 \<times> vec3 \<times> vec3"

fun det3 :: "mat3 \<Rightarrow> real" where
  "det3 ((a, b, c), (d, e, f), (g, h, i)) =
     a * (e * i - f * h) - b * (d * i - f * g) + c * (d * h - e * g)"

text \<open>
  \<^verbatim>\<open>np.linalg.matrix_rank(M) < 3\<close>: in exact arithmetic a 3\<open>\<times>\<close>3 matrix has rank below 3
  exactly when its determinant is 0.
\<close>

definition matrix_rank_lt3 :: "mat3 \<Rightarrow> bool" where
  "matrix_rank_lt3 M = (det3 M = 0)"

fun column3 :: "mat3 \<Rightarrow> nat \<Rightarrow> vec3" where
  "column3 (r0, r1, r2) j = (comp3 r0 j, comp3 r1 j, comp3 r2 j)"

subsection \<open>Trajectory\<close>

text \<open>
  Modelled from the spec: the class \<^verbatim>\<open>Trajectory\<close> of \<^verbatim>\<open>psa/core/trajectory.py\<close> is not
  among the sources. The specification gives it per-frame positions and velocities (one
  3-vector per atom), per-atom integer type labels fixed across frames, one 3\<open>\<times>\<close>3 box
  matrix and a scalar timestep; the calculator reads the attributes \<^verbatim>\<open>positions\<close>,
  \<^verbatim>\<open>velocities\<close> (shape frames \<open>\<times>\<close> atoms \<open>\<times>\<close> 3), \<^verbatim>\<open>types\<close>, \<^verbatim>\<open>box_matrix\<close>, \<^verbatim>\<open>dt_ps\<close>,
  \<^verbatim>\<open>n_frames\<close> and \<^verbatim>\<open>n_atoms\<close>. The two counts are the lengths of the frame axis and of
  the type labels, as in the \<^verbatim>\<open>Trajectory\<close> dataclass of \<^verbatim>\<open>SDA.py\<close>.
\<close>

record trajectory =
  positions :: "vec3 list list"
  velocities :: "vec3 list list"
  atom_types :: "int list"
  box_matrix :: mat3
  traj_dt_ps :: "real option"

definition n_frames :: "trajectory \<Rightarrow> nat" where
  "n_frames tr = length (positions tr)"

definition n_atoms :: "trajectory \<Rightarrow> nat" where
  "n_atoms tr = length (atom_types tr)"

subsection \<open>Lattice geometry (\<^verbatim>\<open>SEDCalculator.__init__\<close>)\<close>

record sed_calculator =
  traj :: trajectory
  use_displacements :: bool
  dt_ps :: real
  a1 :: vec3
  a2 :: vec3
  a3 :: vec3
  b1 :: vec3
  b2 :: vec3
  b3 :: vec3

text \<open>
  The constructor, check by check in the order of the source. The primitive vectors are
  the rows of the box matrix divided by the repeat counts; the volume used for the
  reciprocal vectors is the absolute value of the scalar triple product. The two log
  lines (deprecated \<^verbatim>\<open>dt_ps\<close>, very small volume) are not part of the model.
\<close>

definition SEDCalculator_init ::
  "trajectory \<Rightarrow> int \<Rightarrow> int \<Rightarrow> int \<Rightarrow> bool \<Rightarrow> real option \<Rightarrow> error + sed_calculator" where
  "SEDCalculator_init tr nx ny nz use_disp dt_arg =
     (if \<not> (nx > 0 \<and> ny > 0 \<and> nz > 0) then Inl ValueError
      else case (case dt_arg of Some d \<Rightarrow> Some d | None \<Rightarrow> traj_dt_ps tr) of
        None \<Rightarrow> Inl ValueError
      | Some dt \<Rightarrow>
          if dt \<le> 0 then Inl ValueError
          else
            let L1 = fst (box_matrix tr); L2 = fst (snd (box_matrix tr));
                L3 = snd (snd (box_matrix tr));
                A1 = vdiv3 L1 (of_int nx); A2 = vdiv3 L2 (of_int ny); A3 = vdiv3 L3 (of_int nz)
            in if norm3 A1 < 1 / 10 ^ 9 \<or> norm3 A2 < 1 / 10 ^ 9 \<or> norm3 A3 < 1 / 10 ^ 9
               then Inl ValueError
               else
                 let vol_prim = \<bar>dot3 A1 (cross3 A2 A3)\<bar>
                 in if isclose vol_prim 0 \<and>
                       (matrix_rank_lt3 (A1, A2, A3) \<or> isclose (det3 (A1, A2, A3)) 0)
                    then Inl ValueError
                    else Inr \<lparr>traj = tr, use_displacements = use_disp, dt_ps = dt,
                              a1 = A1, a2 = A2, a3 = A3,
                              b1 = scale3 (2 * pi / vol_prim) (cross3 A2 A3),
                              b2 = scale3 (2 * pi / vol_prim) (cross3 A3 A1),
                              b3 = scale3 (2 * pi / vol_prim) (cross3 A1 A2)\<rparr>)"

subsection \<open>Lattice geometry of the legacy script (\<^verbatim>\<open>SDCalculator.__init__\<close> in \<^verbatim>\<open>SDA.py\<close>)\<close>

record sd_calculator =
  sd_a1 :: vec3
  sd_a2 :: vec3
  sd_a3 :: vec3
  sd_recip_vectors :: mat3

text \<open>
  The legacy constructor takes the columns of the cell matrix and divides by the signed
  volume; it has no degeneracy check (NumPy divides by zero without raising).
\<close>

definition SDCalculator_init :: "mat3 \<Rightarrow> int \<Rightarrow> int \<Rightarrow> int \<Rightarrow> error + sd_calculator" where
  "SDCalculator_init cell_mat nx ny nz =
     (if nx \<le> 0 \<or> ny \<le> 0 \<or> nz \<le> 0 then Inl ValueError
      else
        let A1 = vdiv3 (column3 cell_mat 0) (of_int nx);
            A2 = vdiv3 (column3 cell_mat 1) (of_int ny);
            A3 = vdiv3 (column3 cell_mat 2) (of_int nz);
            volume = dot3 A1 (cross3 A2 A3)
        in Inr \<lparr>sd_a1 = A1, sd_a2 = A2, sd_a3 = A3,
                 sd_recip_vectors =
                   (vdiv3 (scale3 (2 * pi) (cross3 A2 A3)) volume,
                    vdiv3 (scale3 (2 * pi) (cross3 A3 A1)) volume,
                    vdiv3 (scale3 (2 * pi) (cross3 A1 A2)) volume)\<rparr>)"

subsection \<open>Direction specifications (\<^verbatim>\<open>parse_direction\<close>)\<close>

text \<open>
  The dynamically typed argument \<^verbatim>\<open>direction\<close>: a number, a string, a sequence (list,
  tuple or array) of numbers, a dictionary with string keys, or any other object.
\<close>

datatype direction_spec =
    DNum real
  | DStr string
  | DSeq "real list"
  | DDict "(string \<times> real) list"
  | DOther

text \<open>\<^verbatim>\<open>str.lower()\<close> on ASCII letters.\<close>

definition char_lower :: "char \<Rightarrow> char" where
  "char_lower ch =
     (case map_of (zip ''ABCDEFGHIJKLMNOPQRSTUVWXYZ'' ''abcdefghijklmnopqrstuvwxyz'') ch of
        None \<Rightarrow> ch
      | Some l \<Rightarrow> l)"

definition str_lower :: "string \<Rightarrow> string" where
  "str_lower s = map char_lower s"

text \<open>\<^verbatim>\<open>np.deg2rad\<close>, and the vector \<^verbatim>\<open>[cos(rad), sin(rad), 0.0]\<close> of an angle in degrees.\<close>

definition deg2rad :: "real \<Rightarrow> real" where
  "deg2rad d = d * pi / 180"

definition angle_vec :: "real \<Rightarrow> vec3" where
  "angle_vec angle = (let rad = deg2rad angle in (cos rad, sin rad, 0))"

text \<open>\<^verbatim>\<open>direction.get(key, 0.0)\<close>.\<close>

definition dict_get :: "(string \<times> real) list \<Rightarrow> string \<Rightarrow> real" where
  "dict_get d key = (case map_of d key of None \<Rightarrow> 0 | Some v \<Rightarrow> v)"

text \<open>
  \<^verbatim>\<open>parse_direction\<close> as written in \<^verbatim>\<open>SDA.py\<close>. Python's built-in \<^verbatim>\<open>float(str)\<close> is the
  parameter \<open>py_float\<close>: it gives \<open>None\<close> where \<^verbatim>\<open>float\<close> raises \<^verbatim>\<open>ValueError\<close>. The function
  checks that the vector is not (nearly) zero and returns it as it is.
\<close>

definition parse_direction_vec ::
  "(string \<Rightarrow> real option) \<Rightarrow> direction_spec \<Rightarrow> error + vec3" where
  "parse_direction_vec py_float direction =
     (case direction of
        DNum d \<Rightarrow> Inr (angle_vec d)
      | DStr s \<Rightarrow>
          (case py_float s of
             Some angle \<Rightarrow> Inr (angle_vec angle)
           | None \<Rightarrow>
               if str_lower s = ''x'' then Inr (1, 0, 0)
               else if str_lower s = ''y'' then Inr (0, 1, 0)
               else if str_lower s = ''z'' then Inr (0, 0, 1)
               else Inl ValueError)
      | DSeq xs \<Rightarrow>
          if length xs = 1 then Inr (angle_vec (hd xs))
          else if length xs = 3 then Inr (xs ! 0, xs ! 1, xs ! 2)
          else Inl ValueError
      | DDict d \<Rightarrow>
          if ''angle'' \<in> set (map fst d) then Inr (angle_vec (dict_get d ''angle''))
          else Inr (dict_get d ''h'', dict_get d ''k'', dict_get d ''l'')
      | DOther \<Rightarrow> Inl ValueError)"

definition parse_direction_sda ::
  "(string \<Rightarrow> real option) \<Rightarrow> direction_spec \<Rightarrow> error + vec3" where
  "parse_direction_sda py_float direction =
     (case parse_direction_vec py_float direction of
        Inl e \<Rightarrow> Inl e
      | Inr vec \<Rightarrow> if norm3 vec < 1 / 10 ^ 10 then Inl ValueError else Inr vec)"

text \<open>
  Modelled from the spec: \<^verbatim>\<open>parse_direction\<close> of \<^verbatim>\<open>psa/utils/helpers.py\<close>, which
  \<^verbatim>\<open>SEDCalculator\<close> imports, is not among the sources. The specification says that the
  direction is normalised to a unit vector, that it accepts an angle in degrees, a
  3-component vector or a symbolic axis / Miller-index-like mapping, that a shape other than
  length 1 or 3 is a validation error, and that a zero-length result is rejected. The model
  is the parser of \<^verbatim>\<open>SDA.py\<close> followed by the division by the norm.
\<close>

definition parse_direction ::
  "(string \<Rightarrow> real option) \<Rightarrow> direction_spec \<Rightarrow> error + vec3" where
  "parse_direction py_float direction =
     (case parse_direction_sda py_float direction of
        Inl e \<Rightarrow> Inl e
      | Inr vec \<Rightarrow> Inr (vdiv3 vec (norm3 vec)))"

subsection \<open>k-path (\<^verbatim>\<open>SEDCalculator.get_k_path\<close>)\<close>

text \<open>
  \<^verbatim>\<open>np.linspace(start, stop, num)\<close> with the default \<^verbatim>\<open>endpoint=True\<close>: \<^verbatim>\<open>num\<close> samples
  \<^verbatim>\<open>start + i * step\<close> with \<^verbatim>\<open>step = (stop - start) / (num - 1)\<close>, the last one set to
  \<^verbatim>\<open>stop\<close>.
\<close>

definition linspace :: "real \<Rightarrow> real \<Rightarrow> nat \<Rightarrow> real list" where
  "linspace start stop num =
     (if num = 0 then []
      else if num = 1 then [start]
      else map (\<lambda>i. start + real i * ((stop - start) / real (num - 1))) [0..<num - 1] @ [stop])"

text \<open>
  The characteristic reciprocal extent: from the lattice parameter when one above
  \<^verbatim>\<open>1e-6\<close> is given, else the largest absolute projection of the direction onto the
  reciprocal vectors, else \<^verbatim>\<open>2\<pi>/|a1|\<close>, else an error.
\<close>

definition recip_extent_of :: "sed_calculator \<Rightarrow> vec3 \<Rightarrow> real option \<Rightarrow> error + real" where
  "recip_extent_of c k_dir_unit lat_param =
     (if (case lat_param of None \<Rightarrow> True | Some lp \<Rightarrow> lp \<le> 1 / 10 ^ 6)
      then
        let b_proj_x = dot3 k_dir_unit (b1 c);
            b_proj_y = dot3 k_dir_unit (b2 c);
            b_proj_z = dot3 k_dir_unit (b3 c);
            max_projection = max \<bar>b_proj_x\<bar> (max \<bar>b_proj_y\<bar> \<bar>b_proj_z\<bar>)
        in if max_projection > 1 / 10 ^ 6 then Inr max_projection
           else
             let norm_a1 = norm3 (a1 c)
             in if norm_a1 > 1 / 10 ^ 6 then Inr (2 * pi / norm_a1) else Inl ValueError
      else Inr (2 * pi / the lat_param))"

text \<open>\<^verbatim>\<open>get_k_path\<close> returns the pair \<^verbatim>\<open>(k_mags, k_vecs)\<close>; \<^verbatim>\<open>np.outer(k_mags, k_dir_unit)\<close>
  has the row \<^verbatim>\<open>k_mags[i] * k_dir_unit\<close> at index \<^verbatim>\<open>i\<close>.\<close>

definition get_k_path ::
  "(string \<Rightarrow> real option) \<Rightarrow> sed_calculator \<Rightarrow> direction_spec \<Rightarrow> real \<Rightarrow> int \<Rightarrow> real option
     \<Rightarrow> error + (real list \<times> vec3 list)" where
  "get_k_path py_float c direction_spec bz_coverage n_k lat_param =
     (case parse_direction py_float direction_spec of
        Inl e \<Rightarrow> Inl e
      | Inr k_dir_unit \<Rightarrow>
          (case recip_extent_of c k_dir_unit lat_param of
             Inl e \<Rightarrow> Inl e
           | Inr recip_extent \<Rightarrow>
               let k_max_val = bz_coverage * recip_extent
               in if n_k < 1 then Inl ValueError
                  else
                    let k_mags = (if n_k > 1 then linspace 0 k_max_val (nat n_k)
                                  else [if isclose k_max_val 0 then 0 else k_max_val]);
                        k_vecs = map (\<lambda>m. scale3 m k_dir_unit) k_mags
                    in Inr (k_mags, k_vecs)))"

subsection \<open>The SED result entity and the log\<close>

text \<open>
  Modelled from the spec: the class \<^verbatim>\<open>SED\<close> of \<^verbatim>\<open>psa/core/sed.py\<close> is not among the
  sources. The specification describes it as the amplitude or intensity array, the
  frequency axis, the k magnitudes and k vectors, an optional grid shape, the flag that
  tells a complex per-polarization amplitude from a real polarization-summed intensity, and
  an optional phase field; the calculator builds it with exactly these arguments and reads
  them back as attributes. A nested list cannot tell the shape \<^verbatim>\<open>(0, 0, 3)\<close> from
  \<^verbatim>\<open>(0, 5, 3)\<close>, so the array carries its NumPy shape next to its data.
\<close>

datatype sed_data = ComplexData "complex list list list" | RealData "real list list"

record SED =
  sed :: sed_data
  sed_shape :: "nat list"
  freqs :: "real list"
  k_points :: "real list"
  k_vectors :: "vec3 list"
  k_grid_shape :: "(nat \<times> nat) option"
  is_complex :: bool
  phase :: "real list list option"

text \<open>
  The calls of \<^verbatim>\<open>logger.warning\<close> in \<^verbatim>\<open>calculate\<close>, in the order they are made. The
  levels \<^verbatim>\<open>debug\<close> and \<^verbatim>\<open>info\<close> are not part of the model.
\<close>

datatype warning =
    WarnZeroFramesOrAtoms
  | WarnBothBasis
  | WarnNoAtomsForTypeGroup "int list"
  | WarnUnsupportedNdarray
  | WarnEmptyKVectors
  | WarnFinalGroupEmpty nat

subsection \<open>Basis selectors\<close>

text \<open>
  An element of a Python list given as basis selector: an \<^verbatim>\<open>int\<close>, a \<^verbatim>\<open>list\<close> (of
  integers), or any other object.
\<close>

datatype pyitem = PInt int | PList "int list" | PObj

fun is_PInt :: "pyitem \<Rightarrow> bool" where
  "is_PInt (PInt i) = True"
| "is_PInt (PList l) = False"
| "is_PInt PObj = False"

fun is_PList :: "pyitem \<Rightarrow> bool" where
  "is_PList (PInt i) = False"
| "is_PList (PList l) = True"
| "is_PList PObj = False"

fun pint_of :: "pyitem \<Rightarrow> int" where
  "pint_of (PInt i) = i"
| "pint_of (PList l) = 0"
| "pint_of PObj = 0"

fun plist_of :: "pyitem \<Rightarrow> int list" where
  "plist_of (PInt i) = []"
| "plist_of (PList l) = l"
| "plist_of PObj = []"

text \<open>
  \<^verbatim>\<open>basis_atom_indices\<close>: a list, a NumPy array (its \<^verbatim>\<open>ndim\<close> and its elements) or
  another object. \<^verbatim>\<open>basis_atom_types\<close>: a list, an \<^verbatim>\<open>int\<close> or another object.
\<close>

datatype basis_indices = BI_list "pyitem list" | BI_ndarray nat "int list" | BI_other

datatype basis_types = BT_list "pyitem list" | BT_int int | BT_other

text \<open>
  Lines 215-227: the type groups. A flat list of integers is split into one group per type
  under \<^verbatim>\<open>'incoherent'\<close> and kept as one group otherwise.
\<close>

definition process_basis_atom_types :: "basis_types \<Rightarrow> string \<Rightarrow> error + int list list" where
  "process_basis_atom_types basis_atom_types summation_mode =
     (case basis_atom_types of
        BT_list items \<Rightarrow>
          if length items > 0 then
            (if list_all is_PList items then Inr (map plist_of items)
             else if list_all is_PInt items then
               (if summation_mode = ''incoherent''
                then Inr (map (\<lambda>t. [pint_of t]) items)
                else Inr [map pint_of items])
             else Inl ValueError)
          else Inr []
      | BT_int t \<Rightarrow> Inr [[t]]
      | BT_other \<Rightarrow> Inr [])"

text \<open>\<^verbatim>\<open>np.where(np.isin(types, type_group))[0]\<close>: the ascending atom indices of these types.\<close>

definition atoms_of_types :: "int list \<Rightarrow> int list \<Rightarrow> nat list" where
  "atoms_of_types tys type_group = filter (\<lambda>a. tys ! a \<in> set type_group) [0..<length tys]"

text \<open>Lines 229-234: a type group without atoms is skipped with a warning.\<close>

fun type_groups :: "int list \<Rightarrow> int list list \<Rightarrow> warning list \<times> nat list list" where
  "type_groups tys [] = ([], [])"
| "type_groups tys (type_group # rest) =
     (let indices = atoms_of_types tys type_group;
          r = type_groups tys rest
      in if indices \<noteq> [] then (fst r, indices # snd r)
         else (WarnNoAtomsForTypeGroup type_group # fst r, snd r))"

text \<open>Lines 237-254: the index groups as given.\<close>

definition process_basis_atom_indices ::
  "basis_indices \<Rightarrow> warning list \<times> (error + int list list)" where
  "process_basis_atom_indices basis_atom_indices =
     (case basis_atom_indices of
        BI_list items \<Rightarrow>
          if length items = 0 then ([], Inr [])
          else if list_all is_PList items
          then ([], Inr (filter (\<lambda>arr. arr \<noteq> []) (map plist_of items)))
          else if list_all is_PInt items
          then ([], Inr (filter (\<lambda>arr. arr \<noteq> []) [map pint_of items]))
          else ([], Inl ValueError)
      | BI_ndarray ndim arr \<Rightarrow>
          if ndim = 1 \<and> arr \<noteq> [] then ([], Inr [arr])
          else ([WarnUnsupportedNdarray], Inr [])
      | BI_other \<Rightarrow> ([], Inr []))"

text \<open>Lines 256-260: the bounds check of every index group.\<close>

fun check_index_groups :: "nat \<Rightarrow> int list list \<Rightarrow> error + nat list list" where
  "check_index_groups n_atoms_tot [] = Inr []"
| "check_index_groups n_atoms_tot (grp_idx # rest) =
     (if list_ex (\<lambda>i. i \<ge> int n_atoms_tot) grp_idx \<or> list_ex (\<lambda>i. i < 0) grp_idx
      then Inl ValueError
      else case check_index_groups n_atoms_tot rest of
             Inl e \<Rightarrow> Inl e
           | Inr gs \<Rightarrow> Inr (if grp_idx \<noteq> [] then map nat grp_idx # gs else gs))"

text \<open>
  Lines 209-260: \<^verbatim>\<open>atom_groups\<close> before the fallback. The branch on
  \<^verbatim>\<open>basis_atom_types\<close> comes first; \<^verbatim>\<open>basis_atom_indices\<close> is read only in its \<^verbatim>\<open>elif\<close>.
\<close>

definition basis_atom_groups ::
  "trajectory \<Rightarrow> basis_indices option \<Rightarrow> basis_types option \<Rightarrow> string
     \<Rightarrow> warning list \<times> (error + nat list list)" where
  "basis_atom_groups tr basis_atom_indices basis_atom_types summation_mode =
     (case basis_atom_types of
        Some bt \<Rightarrow>
          (let w0 = (if basis_atom_indices \<noteq> None then [WarnBothBasis] else [])
           in case process_basis_atom_types bt summation_mode of
                Inl e \<Rightarrow> (w0, Inl e)
              | Inr processed \<Rightarrow>
                  (let r = type_groups (atom_types tr) processed
                   in (w0 @ fst r, Inr (snd r))))
      | None \<Rightarrow>
          (case basis_atom_indices of
             Some bi \<Rightarrow>
               (case process_basis_atom_indices bi of
                  (ws, Inl e) \<Rightarrow> (ws, Inl e)
                | (ws, Inr processed) \<Rightarrow> (ws, check_index_groups (n_atoms tr) processed))
           | None \<Rightarrow> ([], Inr [])))"

text \<open>
  Lines 209-266: \<^verbatim>\<open>atom_groups\<close> as the chunk loop sees it. When no group is left, all
  atoms form the single group \<^verbatim>\<open>np.arange(n_atoms_tot)\<close>.
\<close>

definition determine_atom_groups ::
  "trajectory \<Rightarrow> basis_indices option \<Rightarrow> basis_types option \<Rightarrow> string
     \<Rightarrow> warning list \<times> (error + nat list list)" where
  "determine_atom_groups tr basis_atom_indices basis_atom_types summation_mode =
     (case basis_atom_groups tr basis_atom_indices basis_atom_types summation_mode of
        (ws, Inl e) \<Rightarrow> (ws, Inl e)
      | (ws, Inr atom_groups) \<Rightarrow>
          (ws, Inr (if atom_groups = [] then [[0..<n_atoms tr]] else atom_groups)))"

subsection \<open>Space-time projection (\<^verbatim>\<open>SEDCalculator._calculate_sed_for_group\<close>)\<close>

text \<open>\<^verbatim>\<open>np.mean(positions, axis=0)\<close> for an array of \<open>n\<close> atoms per frame.\<close>

definition mean_axis0 :: "vec3 list list \<Rightarrow> nat \<Rightarrow> vec3 list" where
  "mean_axis0 P n =
     map (\<lambda>v. vdiv3 v (real (length P))) (foldr (map2 add3) P (replicate n (0, 0, 0)))"

text \<open>
  \<^verbatim>\<open>np.fft.fftfreq(n, d)\<close>: the sample frequencies \<^verbatim>\<open>[0, 1, ..., (n-1)//2, -(n//2), ..., -1] / (d*n)\<close>.
\<close>

definition fftfreq :: "nat \<Rightarrow> real \<Rightarrow> real list" where
  "fftfreq n d =
     map (\<lambda>i. (if i \<le> (n - 1) div 2 then real i else real i - real n) / (d * real n)) [0..<n]"

text \<open>
  \<^verbatim>\<open>np.fft.fft(X, axis=0)\<close> of an array of shape \<^verbatim>\<open>(n, n_k, 3)\<close>: the entry at frequency
  index \<open>w\<close> is the sum over the time index \<open>t\<close> of \<^verbatim>\<open>X[t] * exp(-2\<pi>i w t / n)\<close>.
\<close>

definition twiddle :: "nat \<Rightarrow> nat \<Rightarrow> nat \<Rightarrow> complex" where
  "twiddle n w t = cis (- (2 * pi * real w * real t / real n))"

definition fft_axis0 :: "complex list list list \<Rightarrow> nat \<Rightarrow> complex list list list" where
  "fft_axis0 X n_k =
     (let n = length X
      in map (\<lambda>w. foldr (\<lambda>(t, slab) acc.
                           map2 (map2 (+)) (map (map (\<lambda>x. x * twiddle n w t)) slab) acc)
                        (zip [0..<n] X) (replicate n_k [0, 0, 0]))
             [0..<n])"

text \<open>
  The helper itself. \<^verbatim>\<open>phase_factors_exp\<close> has one row per k-vector and one column per
  atom of the group; the \<^verbatim>\<open>einsum('ta,ak->tk')\<close> of each polarization axis sums over the
  atoms; the transform along the time axis is divided by the number of frames.
\<close>

definition calculate_sed_for_group ::
  "sed_calculator \<Rightarrow> vec3 list \<Rightarrow> nat list \<Rightarrow> vec3 list \<Rightarrow> complex list list list" where
  "calculate_sed_for_group c k_vectors_3d group_atom_indices mean_pos_all =
     (let n_t = n_frames (traj c)
      in if group_atom_indices = []
         then replicate n_t (replicate (length k_vectors_3d) [0, 0, 0])
         else
           let mean_pos_group = map (\<lambda>a. mean_pos_all ! a) group_atom_indices;
               data_ft_group =
                 (if use_displacements c
                  then map (\<lambda>frame. map2 sub3 (map (\<lambda>a. frame ! a) group_atom_indices)
                                        mean_pos_group) (positions (traj c))
                  else map (\<lambda>frame. map (\<lambda>a. frame ! a) group_atom_indices)
                         (velocities (traj c)));
               n_k_vecs = length k_vectors_3d;
               phase_factors_exp =
                 map (\<lambda>k. map (\<lambda>r. exp (\<i> * complex_of_real (dot3 k r))) mean_pos_group)
                   k_vectors_3d;
               sed_tk_pol_group =
                 map (\<lambda>data_t.
                        map (\<lambda>phase_k.
                               map (\<lambda>pol_axis.
                                      sum_list (map2 (\<lambda>d ph. complex_of_real (comp3 d pol_axis) * ph)
                                                  data_t phase_k))
                                 [0, 1, 2])
                          phase_factors_exp)
                   data_ft_group
           in if n_t > 0
              then map (map (map (\<lambda>x. x / of_nat n_t))) (fft_axis0 sed_tk_pol_group n_k_vecs)
              else [])"

subsection \<open>The spectral transform (\<^verbatim>\<open>SEDCalculator.calculate\<close>)\<close>

text \<open>
  The slice assignment \<^verbatim>\<open>full[:, start:end] = chunk\<close> (with or without a trailing
  polarization axis): in every row the columns from \<^verbatim>\<open>start\<close> up to \<^verbatim>\<open>end\<close> are replaced.
\<close>

definition assign_cols :: "'a list list \<Rightarrow> nat \<Rightarrow> nat \<Rightarrow> 'a list list \<Rightarrow> 'a list list" where
  "assign_cols full start_idx end_idx chunk =
     map2 (\<lambda>row crow. take start_idx row @ crow @ drop end_idx row) full chunk"

text \<open>\<^verbatim>\<open>np.unique(np.concatenate(atom_groups))\<close> for several groups, the group itself for one.\<close>

definition final_group_indices :: "nat list list \<Rightarrow> nat list" where
  "final_group_indices atom_groups =
     (if length atom_groups > 1 then sort (remdups (concat atom_groups))
      else if length atom_groups = 1 then hd atom_groups
      else [])"

text \<open>One pass of the chunk loop in the coherent case (lines 288-311).\<close>

definition coherent_chunk ::
  "sed_calculator \<Rightarrow> vec3 list \<Rightarrow> nat list list \<Rightarrow> vec3 list \<Rightarrow> nat \<Rightarrow> nat
     \<Rightarrow> warning list \<times> complex list list list \<Rightarrow> warning list \<times> complex list list list" where
  "coherent_chunk c k_vectors_3d atom_groups mean_pos_all actual_k_chunk_size i_chunk st =
     (let num_k_vectors = length k_vectors_3d;
          start_idx = i_chunk * actual_k_chunk_size;
          end_idx = min ((i_chunk + 1) * actual_k_chunk_size) num_k_vectors;
          current_k_vectors_chunk = drop start_idx (take end_idx k_vectors_3d)
      in if current_k_vectors_chunk = [] then st
         else
           let fgi = final_group_indices atom_groups
           in if fgi = [] then (fst st @ [WarnFinalGroupEmpty (i_chunk + 1)], snd st)
              else (fst st,
                    assign_cols (snd st) start_idx end_idx
                      (calculate_sed_for_group c current_k_vectors_chunk fgi mean_pos_all)))"

text \<open>\<^verbatim>\<open>np.sum(np.abs(X)**2, axis=-1)\<close>: the power summed over the polarization axis.\<close>

definition power_pol :: "complex list list list \<Rightarrow> real list list" where
  "power_pol X = map (map (\<lambda>cell. sum_list (map (\<lambda>z. (cmod z) ^ 2) cell))) X"

text \<open>One pass of the chunk loop in the incoherent case (lines 288-294 and 313-327).\<close>

definition incoherent_chunk ::
  "sed_calculator \<Rightarrow> vec3 list \<Rightarrow> nat list list \<Rightarrow> vec3 list \<Rightarrow> nat \<Rightarrow> nat \<Rightarrow> nat
     \<Rightarrow> warning list \<times> real list list \<Rightarrow> warning list \<times> real list list" where
  "incoherent_chunk c k_vectors_3d atom_groups mean_pos_all n_freqs actual_k_chunk_size i_chunk st =
     (let num_k_vectors = length k_vectors_3d;
          start_idx = i_chunk * actual_k_chunk_size;
          end_idx = min ((i_chunk + 1) * actual_k_chunk_size) num_k_vectors;
          current_k_vectors_chunk = drop start_idx (take end_idx k_vectors_3d)
      in if current_k_vectors_chunk = [] then st
         else
           let summed_intensity_chunk =
                 fold (\<lambda>grp_indices acc.
                         if grp_indices = [] then acc
                         else map2 (map2 (+)) acc
                                (power_pol (calculate_sed_for_group c current_k_vectors_chunk
                                              grp_indices mean_pos_all)))
                   atom_groups
                   (replicate n_freqs (replicate (length current_k_vectors_chunk) 0))
           in (fst st, assign_cols (snd st) start_idx end_idx summed_intensity_chunk))"

text \<open>
  Lines 268-336: the chunk loop over the k-axis and the construction of the result, for
  the atom groups found before. \<open>ws\<close> is the log so far.
\<close>

definition transform_chunks ::
  "sed_calculator \<Rightarrow> real list \<Rightarrow> vec3 list \<Rightarrow> vec3 list \<Rightarrow> real list \<Rightarrow> nat list list
     \<Rightarrow> string \<Rightarrow> (nat \<times> nat) option \<Rightarrow> int \<Rightarrow> warning list \<Rightarrow> warning list \<times> SED" where
  "transform_chunks c k_points_mags k_vectors_3d mean_pos_all freqs_v atom_groups summation_mode
       k_grid_shape_arg k_chunk_size ws =
     (let num_k_vectors = length k_vectors_3d;
          actual_k_chunk_size =
            (if num_k_vectors > 0
             then nat (min (max 1 k_chunk_size) (int num_k_vectors)) else 1);
          num_chunks =
            (if num_k_vectors > 0
             then (num_k_vectors + actual_k_chunk_size - 1) div actual_k_chunk_size
             else 0);
          is_complex_output = (summation_mode = ''coherent'' \<or> length atom_groups \<le> 1);
          ws1 = ws @ (if num_k_vectors = 0 then [WarnEmptyKVectors] else [])
      in if is_complex_output
         then
           let r = fold (coherent_chunk c k_vectors_3d atom_groups mean_pos_all
                           actual_k_chunk_size)
                     [0..<num_chunks]
                     (ws1, replicate (length freqs_v) (replicate num_k_vectors [0, 0, 0]))
           in (fst r,
               \<lparr>sed = ComplexData (snd r),
                sed_shape = [length freqs_v, num_k_vectors, 3],
                freqs = freqs_v, k_points = k_points_mags,
                k_vectors = k_vectors_3d, k_grid_shape = k_grid_shape_arg,
                is_complex = True, phase = None\<rparr>)
         else
           let r = fold (incoherent_chunk c k_vectors_3d atom_groups mean_pos_all
                           (length freqs_v) actual_k_chunk_size)
                     [0..<num_chunks]
                     (ws1, replicate (length freqs_v) (replicate num_k_vectors 0))
           in (fst r,
               \<lparr>sed = RealData (snd r),
                sed_shape = [length freqs_v, num_k_vectors],
                freqs = freqs_v, k_points = k_points_mags,
                k_vectors = k_vectors_3d, k_grid_shape = k_grid_shape_arg,
                is_complex = False, phase = None\<rparr>))"

text \<open>
  The public operation: the check of the mode, the degenerate return for a trajectory
  without frames or atoms, the mean positions and the frequency axis, the atom groups, the
  chunk loop.
\<close>

definition calculate ::
  "sed_calculator \<Rightarrow> real list \<Rightarrow> vec3 list \<Rightarrow> basis_indices option \<Rightarrow> basis_types option
     \<Rightarrow> string \<Rightarrow> (nat \<times> nat) option \<Rightarrow> int \<Rightarrow> warning list \<times> (error + SED)" where
  "calculate c k_points_mags k_vectors_3d basis_atom_indices basis_atom_types summation_mode
       k_grid_shape_arg k_chunk_size =
     (if summation_mode \<noteq> ''coherent'' \<and> summation_mode \<noteq> ''incoherent''
      then ([], Inl ValueError)
      else
        let n_t = n_frames (traj c); n_atoms_tot = n_atoms (traj c)
        in if n_t = 0 \<or> n_atoms_tot = 0
           then ([WarnZeroFramesOrAtoms],
                 Inr \<lparr>sed = ComplexData [], sed_shape = [0, 0, 3], freqs = [],
                      k_points = k_points_mags, k_vectors = k_vectors_3d,
                      k_grid_shape = k_grid_shape_arg, is_complex = True, phase = None\<rparr>)
           else
             let mean_pos_all = mean_axis0 (positions (traj c)) n_atoms_tot;
                 freqs_v = fftfreq n_t (dt_ps c)
             in case determine_atom_groups (traj c) basis_atom_indices basis_atom_types
                       summation_mode of
                  (ws, Inl e) \<Rightarrow> (ws, Inl e)
                | (ws, Inr atom_groups) \<Rightarrow>
                    (let r = transform_chunks c k_points_mags k_vectors_3d mean_pos_all freqs_v
                               atom_groups summation_mode k_grid_shape_arg k_chunk_size ws
                     in (fst r, Inr (snd r))))"

subsection \<open>The column of one k-vector\<close>

text \<open>
  The three polarization entries that \<^verbatim>\<open>_calculate_sed_for_group\<close> computes for the
  frequency index \<open>w\<close> and one k-vector \<open>k\<close>: the same sums as above, read for a single
  column of the k-axis. It serves to state what the chunk loop assembles.
\<close>

definition group_data :: "sed_calculator \<Rightarrow> nat list \<Rightarrow> vec3 list \<Rightarrow> vec3 list list" where
  "group_data c group_atom_indices mean_pos_all =
     (if use_displacements c
      then map (\<lambda>frame. map2 sub3 (map (\<lambda>a. frame ! a) group_atom_indices)
                            (map (\<lambda>a. mean_pos_all ! a) group_atom_indices))
             (positions (traj c))
      else map (\<lambda>frame. map (\<lambda>a. frame ! a) group_atom_indices) (velocities (traj c)))"

definition spatial_sum :: "vec3 list \<Rightarrow> vec3 list \<Rightarrow> vec3 \<Rightarrow> complex list" where
  "spatial_sum data_t mean_pos_group k =
     map (\<lambda>pol_axis.
            sum_list (map2 (\<lambda>d ph. complex_of_real (comp3 d pol_axis) * ph) data_t
                        (map (\<lambda>r. exp (\<i> * complex_of_real (dot3 k r))) mean_pos_group)))
       [0, 1, 2]"

definition group_cell ::
  "sed_calculator \<Rightarrow> nat list \<Rightarrow> vec3 list \<Rightarrow> nat \<Rightarrow> vec3 \<Rightarrow> complex list" where
  "group_cell c group_atom_indices mean_pos_all w k =
     (if group_atom_indices = [] then [0, 0, 0]
      else
        let data = group_data c group_atom_indices mean_pos_all;
            mean_pos_group = map (\<lambda>a. mean_pos_all ! a) group_atom_indices
        in map (\<lambda>x. x / of_nat (n_frames (traj c)))
             (foldr (\<lambda>(t, data_t) acc.
                       map2 (+) (map (\<lambda>x. x * twiddle (length data) w t)
                                   (spatial_sum data_t mean_pos_group k)) acc)
                (zip [0..<length data] data) [0, 0, 0]))"

text \<open>The summed intensity of the groups for one frequency index and one k-vector.\<close>

definition incoherent_cell ::
  "sed_calculator \<Rightarrow> nat list list \<Rightarrow> vec3 list \<Rightarrow> nat \<Rightarrow> vec3 \<Rightarrow> real" where
  "incoherent_cell c atom_groups mean_pos_all w k =
     fold (\<lambda>grp_indices acc.
             if grp_indices = [] then acc
             else acc + sum_list (map (\<lambda>z. (cmod z) ^ 2) (group_cell c grp_indices mean_pos_all w k)))
       atom_groups 0"

text \<open>
  The total power of a result: the squared magnitude summed over the polarization axis
  for a complex result (as \<^verbatim>\<open>ised\<close> computes \<^verbatim>\<open>grp_intensity\<close>), the intensity itself
  for a real one.
\<close>

definition total_power :: "SED \<Rightarrow> real list list" where
  "total_power s = (case sed s of ComplexData X \<Rightarrow> power_pol X | RealData I \<Rightarrow> I)"

subsection \<open>Chiral phase (\<^verbatim>\<open>SEDCalculator.calculate_chiral_phase\<close>)\<close>

text \<open>
  One cell of the branch \<^verbatim>\<open>angle_range_opt == "C"\<close>: the phase difference, the wrap
  \<^verbatim>\<open>(delta_p + np.pi) % (2*np.pi) - np.pi\<close>, then the two masked assignments in the order of
  the source (the second one reads the array the first one wrote).
\<close>

definition chiral_phase_C :: "complex \<Rightarrow> complex \<Rightarrow> real" where
  "chiral_phase_C z1 z2 =
     (let p1 = np_angle z1; p2 = np_angle z2;
          delta_p = p1 - p2;
          delta_w = py_fmod (delta_p + pi) (2 * pi) - pi;
          delta_q2 = (if delta_w > pi / 2 then pi - delta_w else delta_w);
          delta_q3 = (if delta_q2 < - pi / 2 then - pi - delta_q2 else delta_q2)
      in delta_q3)"

text \<open>\<^verbatim>\<open>np.clip(x, -1.0, 1.0)\<close>.\<close>

definition clip1 :: "real \<Rightarrow> real" where
  "clip1 x = min 1 (max (- 1) x)"

text \<open>
  One cell of the \<^verbatim>\<open>else\<close> branch (the double loop over \<^verbatim>\<open>i, j\<close>): modes \<^verbatim>\<open>"A"\<close> and
  \<^verbatim>\<open>"B"\<close>, and angle 0 for an unknown mode or a magnitude below the threshold.
\<close>

definition chiral_phase_cell :: "string \<Rightarrow> complex \<Rightarrow> complex \<Rightarrow> real" where
  "chiral_phase_cell angle_range_opt z1 z2 =
     (let v1r = Re z1; v1i = Im z1; v2r = Re z2; v2i = Im z2;
          m1sq = v1r ^ 2 + v1i ^ 2; m2sq = v2r ^ 2 + v2i ^ 2
      in if m1sq < 1 / 10 ^ 18 \<or> m2sq < 1 / 10 ^ 18 then 0
         else let m1 = sqrt m1sq; m2 = sqrt m2sq
              in if angle_range_opt = ''A''
                 then arccos (clip1 ((v1r * v2r + v1i * v2i) / (m1 * m2)))
                 else if angle_range_opt = ''B''
                 then arcsin (clip1 ((v1r * v2i - v1i * v2r) / (m1 * m2)))
                 else 0)"

text \<open>
  The whole function on two (frequency \<open>\<times>\<close> k) arrays. The shape of a nested list is its
  list of row lengths. A size-0 input gives a size-0 output of the same shape. The log
  line of the unknown mode is not part of the model.
\<close>

definition calculate_chiral_phase ::
  "complex list list \<Rightarrow> complex list list \<Rightarrow> string \<Rightarrow> error + real list list" where
  "calculate_chiral_phase Z1 Z2 angle_range_opt =
     (if map length Z1 \<noteq> map length Z2 then Inl ValueError
      else if concat Z1 = [] then Inr (map (\<lambda>row. []) Z1)
      else if angle_range_opt = ''C''
      then Inr (map (\<lambda>(r1, r2). map (\<lambda>(z1, z2). chiral_phase_C z1 z2) (zip r1 r2)) (zip Z1 Z2))
      else Inr (map (\<lambda>(r1, r2). map (\<lambda>(z1, z2). chiral_phase_cell angle_range_opt z1 z2)
                  (zip r1 r2)) (zip Z1 Z2)))"

subsection \<open>Inverse reconstruction (\<^verbatim>\<open>SEDCalculator.ised\<close>)\<close>

text \<open>
  \<^verbatim>\<open>rescale_factor\<close> is a string, a number or another object. The basis selectors of
  \<^verbatim>\<open>ised\<close> are lists whose first element tells a list of groups from a flat list.
\<close>

datatype rescale = RStr string | RNum real | ROther

datatype ised_basis = IB_flat "int list" | IB_nested "int list list"

fun ised_basis_nonempty :: "ised_basis option \<Rightarrow> bool" where
  "ised_basis_nonempty None = False"
| "ised_basis_nonempty (Some (IB_flat l)) = (l \<noteq> [])"
| "ised_basis_nonempty (Some (IB_nested l)) = (l \<noteq> [])"

definition is_auto :: "rescale \<Rightarrow> bool" where
  "is_auto r = (case r of RStr s \<Rightarrow> str_lower s = ''auto'' | RNum f \<Rightarrow> False | ROther \<Rightarrow> False)"

text \<open>
  \<^verbatim>\<open>np.argmin\<close>: the first index of the minimum, and \<^verbatim>\<open>ValueError\<close> on an empty array.
  \<^verbatim>\<open>np.amax\<close> likewise raises on an empty array.
\<close>

definition argmin :: "real list \<Rightarrow> error + nat" where
  "argmin xs =
     (case xs of
        [] \<Rightarrow> Inl ValueError
      | x # rest \<Rightarrow> Inr (length (takeWhile (\<lambda>y. y \<noteq> fold min rest x) xs)))"

definition amax :: "real list \<Rightarrow> error + real" where
  "amax xs = (case xs of [] \<Rightarrow> Inl ValueError | x # rest \<Rightarrow> Inr (fold max rest x))"

text \<open>\<^verbatim>\<open>np.std\<close> of the flattened array: the root of the mean squared deviation.\<close>

definition np_mean :: "real list \<Rightarrow> real" where
  "np_mean xs = sum_list xs / real (length xs)"

definition np_std :: "real list \<Rightarrow> real" where
  "np_std xs = sqrt (np_mean (map (\<lambda>x. \<bar>x - np_mean xs\<bar> ^ 2) xs))"

text \<open>The components of a vector as a list, for flattening.\<close>

fun vec3_list :: "vec3 \<Rightarrow> real list" where
  "vec3_list (x, y, z) = [x, y, z]"

text \<open>
  Lines 389-429: the groups to reconstruct. Explicit indices come first here, then types,
  then all atoms. The log lines are not part of the model.
\<close>

definition ised_atom_groups ::
  "trajectory \<Rightarrow> ised_basis option \<Rightarrow> ised_basis option \<Rightarrow> error + nat list list" where
  "ised_atom_groups tr basis_atom_idx_ised basis_atom_types_ised =
     (if ised_basis_nonempty basis_atom_idx_ised
      then (case the basis_atom_idx_ised of
              IB_nested groups \<Rightarrow> check_index_groups (n_atoms tr) groups
            | IB_flat idx \<Rightarrow> check_index_groups (n_atoms tr) [idx])
      else if ised_basis_nonempty basis_atom_types_ised
      then (case the basis_atom_types_ised of
              IB_nested type_grps \<Rightarrow> Inr (snd (type_groups (atom_types tr) type_grps))
            | IB_flat tys \<Rightarrow> Inr (snd (type_groups (atom_types tr) (map (\<lambda>t. [t]) tys))))
      else Inr [[0..<n_atoms tr]])"

text \<open>
  \<^verbatim>\<open>wiggles[:, grp_atom_idx, pol_ax] += recon_motion_comp\<close>. NumPy reads the selected
  entries, adds, and writes them back, so for an index that occurs twice the last write
  stands. \<open>old\<close> is the frame before the statement.
\<close>

definition add_motion_frame ::
  "real list list \<Rightarrow> nat list \<Rightarrow> nat \<Rightarrow> real list \<Rightarrow> real list list" where
  "add_motion_frame old grp pol_ax vals =
     fold (\<lambda>(a, v) frame. frame[a := (old ! a)[pol_ax := old ! a ! pol_ax + v]])
       (zip grp vals) old"

definition add_motion ::
  "real list list list \<Rightarrow> nat list \<Rightarrow> nat \<Rightarrow> real list list \<Rightarrow> real list list list" where
  "add_motion wiggles grp pol_ax recon_motion_comp =
     map2 (\<lambda>frame vals. add_motion_frame frame grp pol_ax vals) wiggles recon_motion_comp"

record ised_state =
  st_wiggles :: "real list list list"
  st_recon_done :: bool
  st_max_wiggle_amp_all :: real
  st_std_dev_sum :: real
  st_n_atoms_recon_sum :: nat

text \<open>
  One pass of the loop over the groups (lines 451-508): the coherent SED of the group, the
  nearest frequency bin, the three polarization components of the motion, and, for
  \<^verbatim>\<open>"auto"\<close>, the statistics of the rescaling. The accumulation of the diagnostic spectrum
  for the plot is not part of the model.
\<close>

definition ised_group_step ::
  "sed_calculator \<Rightarrow> real list \<Rightarrow> vec3 list \<Rightarrow> nat \<Rightarrow> real \<Rightarrow> real \<Rightarrow> real list \<Rightarrow> real list
     \<Rightarrow> vec3 list \<Rightarrow> bool \<Rightarrow> nat list \<Rightarrow> ised_state \<Rightarrow> error + ised_state" where
  "ised_group_step c k_mags_ised k_vecs_ised k_match_idx k_actual w_target time_p pos_proj_k_dir
       avg_pos auto grp_atom_idx st =
     (if grp_atom_idx = [] then Inr st
      else
        case snd (calculate c k_mags_ised k_vecs_ised
                    (Some (BI_ndarray 1 (map int grp_atom_idx))) None ''coherent'' None 500) of
          Inl e \<Rightarrow> Inl e
        | Inr sed_object_group \<Rightarrow>
            (case sed sed_object_group of
               RealData I \<Rightarrow> Inl IndexError
             | ComplexData sed_group_data \<Rightarrow>
                 (case argmin (map (\<lambda>f. \<bar>f - w_target\<bar>) (freqs sed_object_group)) of
                    Inl e \<Rightarrow> Inl e
                  | Inr w_match_idx \<Rightarrow>
                      let proj_pos_grp = map (\<lambda>a. pos_proj_k_dir ! a) grp_atom_idx;
                          wiggles' =
                            fold (\<lambda>pol_ax wiggles.
                                    let complex_amp_grp =
                                          sed_group_data ! w_match_idx ! k_match_idx ! pol_ax;
                                        recon_motion_comp =
                                          map (\<lambda>t. map (\<lambda>p. Re (complex_amp_grp *
                                                  exp (\<i> * complex_of_real t -
                                                       \<i> * complex_of_real k_actual *
                                                         complex_of_real p)))
                                                 proj_pos_grp)
                                            time_p
                                    in add_motion wiggles grp_atom_idx pol_ax recon_motion_comp)
                              [0, 1, 2] (st_wiggles st)
                      in if auto
                         then
                           (case amax (concat (map (\<lambda>frame.
                                         concat (map (\<lambda>a. map abs (take 3 (frame ! a)))
                                                   grp_atom_idx)) wiggles')) of
                              Inl e \<Rightarrow> Inl e
                            | Inr max_amp_grp \<Rightarrow>
                                let orig_disp_grp =
                                      concat (map (\<lambda>frame.
                                                concat (map (\<lambda>a. vec3_list (sub3 (frame ! a)
                                                                               (avg_pos ! a)))
                                                          grp_atom_idx))
                                             (positions (traj c)))
                                in Inr \<lparr>st_wiggles = wiggles', st_recon_done = True,
                                        st_max_wiggle_amp_all =
                                          max (st_max_wiggle_amp_all st) max_amp_grp,
                                        st_std_dev_sum =
                                          st_std_dev_sum st +
                                          np_std orig_disp_grp * real (length grp_atom_idx),
                                        st_n_atoms_recon_sum =
                                          st_n_atoms_recon_sum st + length grp_atom_idx\<rparr>)
                         else Inr (st\<lparr>st_wiggles := wiggles', st_recon_done := True\<rparr>))))"

fun ised_loop ::
  "(nat list \<Rightarrow> ised_state \<Rightarrow> error + ised_state) \<Rightarrow> nat list list \<Rightarrow> ised_state
     \<Rightarrow> error + ised_state" where
  "ised_loop step [] st = Inr st"
| "ised_loop step (grp # rest) st =
     (case step grp st of Inl e \<Rightarrow> Inl e | Inr st' \<Rightarrow> ised_loop step rest st')"

text \<open>
  \<^verbatim>\<open>wiggles[:, all_recon_idx, :3] *= f\<close> and \<^verbatim>\<open>/= f\<close>. \<^verbatim>\<open>all_recon_idx\<close> comes from
  \<^verbatim>\<open>np.unique\<close>, so every selected atom is scaled once; the fourth component, which holds
  the atom type in the first frame, is left as it is.
\<close>

definition scale_first3 :: "(real \<Rightarrow> real) \<Rightarrow> real list \<Rightarrow> real list" where
  "scale_first3 op cell = map op (take 3 cell) @ drop 3 cell"

definition scale_atoms ::
  "nat list \<Rightarrow> (real \<Rightarrow> real) \<Rightarrow> real list list list \<Rightarrow> real list list list" where
  "scale_atoms idx op wiggles =
     map (\<lambda>frame. map (\<lambda>a. if a \<in> set idx then scale_first3 op (frame ! a) else frame ! a)
                    [0..<length frame])
       wiggles"

text \<open>
  What \<^verbatim>\<open>ised\<close> hands to the dump writer: the positions \<^verbatim>\<open>final_pos_dump\<close> and the types
  \<^verbatim>\<open>atom_types_dump\<close>, together with the array \<^verbatim>\<open>wiggles\<close> they are computed from. The
  reconstructed displacement field is \<^verbatim>\<open>wiggles[:, :, :3]\<close>.
\<close>

record ised_output =
  out_wiggles :: "real list list list"
  out_final_pos_dump :: "vec3 list list"
  out_atom_types_dump :: "int list"

definition displacement_field :: "ised_output \<Rightarrow> real list list list" where
  "displacement_field out = map (map (take 3)) (out_wiggles out)"

text \<open>
  Lines 510-537: the end of \<^verbatim>\<open>ised\<close>. \<open>None\<close> is the early \<^verbatim>\<open>return\<close> without a
  reconstruction; \<^verbatim>\<open>wiggles[0, :, 3] = sys_atom_types\<close> raises \<^verbatim>\<open>IndexError\<close> when there is
  no frame.
\<close>

definition ised_finish ::
  "sed_calculator \<Rightarrow> vec3 list \<Rightarrow> nat list list \<Rightarrow> rescale \<Rightarrow> ised_state
     \<Rightarrow> error + ised_output option" where
  "ised_finish c avg_pos recon_atom_groups rescale_factor st =
     (if \<not> st_recon_done st then Inr None
      else
        case st_wiggles st of
          [] \<Rightarrow> Inl IndexError
        | frame0 # rest \<Rightarrow>
            let wiggles0 =
                  map2 (\<lambda>cell ty. cell[3 := real_of_int ty]) frame0 (atom_types (traj c)) # rest;
                all_recon_idx =
                  (if recon_atom_groups \<noteq> [] \<and> list_ex (\<lambda>g. g \<noteq> []) recon_atom_groups
                   then sort (remdups (concat recon_atom_groups)) else []);
                wiggles1 =
                  (if all_recon_idx \<noteq> []
                   then
                     (case rescale_factor of
                        RStr s \<Rightarrow>
                          if str_lower s = ''auto''
                          then
                            (if st_max_wiggle_amp_all st > 1 / 10 ^ 9
                             then
                               let wiggles_n =
                                     scale_atoms all_recon_idx
                                       (\<lambda>x. x / st_max_wiggle_amp_all st) wiggles0;
                                   avg_std_dev_disp =
                                     (if st_n_atoms_recon_sum st > 0
                                      then st_std_dev_sum st / real (st_n_atoms_recon_sum st)
                                      else 0)
                               in if avg_std_dev_disp > 1 / 10 ^ 9
                                  then scale_atoms all_recon_idx (\<lambda>x. x * avg_std_dev_disp)
                                         wiggles_n
                                  else wiggles_n
                             else wiggles0)
                          else wiggles0
                      | RNum f \<Rightarrow> scale_atoms all_recon_idx (\<lambda>x. x * f) wiggles0
                      | ROther \<Rightarrow> wiggles0)
                   else wiggles0)
            in Inr (Some \<lparr>out_wiggles = wiggles1,
                          out_final_pos_dump =
                            map (\<lambda>frame. map2 (\<lambda>r cell. add3 r (cell ! 0, cell ! 1, cell ! 2))
                                           avg_pos frame) wiggles1,
                          out_atom_types_dump = map (\<lambda>cell. \<lfloor>cell ! 3\<rfloor>) (hd wiggles1)\<rparr>))"

text \<open>
  \<^verbatim>\<open>ised\<close> itself, as far as the hand-over to the dump writer: the direction, the groups,
  the k-path with the characteristic length as lattice parameter, the zero array
  \<^verbatim>\<open>wiggles\<close>, the phases \<^verbatim>\<open>np.linspace(0, 2\<pi>, n_recon_frames, endpoint=False)\<close>, the nearest
  k bin, the loop over the groups and the rescaling. The optional plot is not part of the
  model.
\<close>

definition ised ::
  "(string \<Rightarrow> real option) \<Rightarrow> sed_calculator \<Rightarrow> direction_spec \<Rightarrow> real \<Rightarrow> real \<Rightarrow> real \<Rightarrow> int
     \<Rightarrow> real \<Rightarrow> ised_basis option \<Rightarrow> ised_basis option \<Rightarrow> rescale \<Rightarrow> int
     \<Rightarrow> error + ised_output option" where
  "ised py_float c k_dir_spec k_target w_target char_len_k_path nk_on_path bz_cov_ised
       basis_atom_idx_ised basis_atom_types_ised rescale_factor n_recon_frames =
     (let avg_pos = mean_axis0 (positions (traj c)) (n_atoms (traj c));
          n_atoms_total = n_atoms (traj c)
      in case parse_direction py_float k_dir_spec of
           Inl e \<Rightarrow> Inl e
         | Inr k_dir_unit \<Rightarrow>
             (case ised_atom_groups (traj c) basis_atom_idx_ised basis_atom_types_ised of
                Inl e \<Rightarrow> Inl e
              | Inr recon_atom_groups \<Rightarrow>
                  if recon_atom_groups = [] then Inr None
                  else
                    (case get_k_path py_float c (DSeq (vec3_list k_dir_unit)) bz_cov_ised
                            nk_on_path (Some char_len_k_path) of
                       Inl e \<Rightarrow> Inl e
                     | Inr (k_mags_ised, k_vecs_ised) \<Rightarrow>
                         if n_recon_frames < 0 then Inl ValueError
                         else
                           let wiggles = replicate (nat n_recon_frames)
                                           (replicate n_atoms_total (replicate 4 0));
                               time_p = map (\<lambda>i. real i * (2 * pi / real_of_int n_recon_frames))
                                          [0..<nat n_recon_frames];
                               pos_proj_k_dir = map (\<lambda>r. dot3 r k_dir_unit) avg_pos
                           in case argmin (map (\<lambda>k. \<bar>k - k_target\<bar>) k_mags_ised) of
                                Inl e \<Rightarrow> Inl e
                              | Inr k_match_idx \<Rightarrow>
                                  (case ised_loop
                                          (ised_group_step c k_mags_ised k_vecs_ised k_match_idx
                                             (k_mags_ised ! k_match_idx) w_target time_p
                                             pos_proj_k_dir avg_pos (is_auto rescale_factor))
                                          recon_atom_groups
                                          \<lparr>st_wiggles = wiggles, st_recon_done = False,
                                           st_max_wiggle_amp_all = 0, st_std_dev_sum = 0,
                                           st_n_atoms_recon_sum = 0\<rparr> of
                                     Inl e \<Rightarrow> Inl e
                                   | Inr st \<Rightarrow>
                                       ised_finish c avg_pos recon_atom_groups rescale_factor
                                         st))))"

text \<open>
  The invariant of the loop over the groups: in every frame, an atom outside the set \<open>S\<close>
  has a zero displacement.
\<close>

definition zero_outside :: "nat set \<Rightarrow> real list list list \<Rightarrow> bool" where
  "zero_outside S wiggles =
     list_all (\<lambda>frame.
                 list_all (\<lambda>a. a \<in> S \<or> list_all (\<lambda>x. x = 0) (take 3 (frame ! a)))
                   [0..<length frame])
       wiggles"

subsection \<open>Example inputs\<close>

text \<open>
  A trajectory of one frame and two atoms of types 1 and 2, both at the origin, in the unit
  cube, and the calculator that \<^verbatim>\<open>SEDCalculator(traj, 1, 1, 1)\<close> builds from it. The
  concrete instances of the theorems below are stated on them.
\<close>

definition example_traj :: trajectory where
  "example_traj =
     \<lparr>positions = [[(0, 0, 0), (0, 0, 0)]], velocities = [[(1, 0, 0), (0, 1, 0)]],
      atom_types = [1, 2], box_matrix = ((1, 0, 0), (0, 1, 0), (0, 0, 1)),
      traj_dt_ps = Some 1\<rparr>"

definition example_calc :: sed_calculator where
  "example_calc =
     \<lparr>traj = example_traj, use_displacements = False, dt_ps = 1,
      a1 = (1, 0, 0), a2 = (0, 1, 0), a3 = (0, 0, 1),
      b1 = (2 * pi, 0, 0), b2 = (0, 2 * pi, 0), b3 = (0, 0, 2 * pi)\<rparr>"

text \<open>A trajectory with one atom and no frame, in the unit cube, and its calculator.\<close>

definition no_frames_calc :: sed_calculator where
  "no_frames_calc =
     \<lparr>traj = \<lparr>positions = [], velocities = [], atom_types = [1],
              box_matrix = ((1, 0, 0), (0, 1, 0), (0, 0, 1)), traj_dt_ps = Some 1\<rparr>,
      use_displacements = False, dt_ps = 1,
      a1 = (1, 0, 0), a2 = (0, 1, 0), a3 = (0, 0, 1),
      b1 = (2 * pi, 0, 0), b2 = (0, 2 * pi, 0), b3 = (0, 0, 2 * pi)\<rparr>"

section \<open>Properties\<close>

subsection \<open>Range of the chiral phase\<close>

lemma py_fmod_range:
  assumes "0 < m"
  shows "0 \<le> py_fmod x m" and "py_fmod x m < m"
proof -
  have xm: "m * (x / m) = x" using assms by simp
  have le: "of_int \<lfloor>x / m\<rfloor> \<le> x / m" by (rule of_int_floor_le)
  have lt: "x / m < of_int \<lfloor>x / m\<rfloor> + 1" by linarith
  from le assms have "m * of_int \<lfloor>x / m\<rfloor> \<le> m * (x / m)"
    by (intro mult_left_mono) simp_all
  with xm show "0 \<le> py_fmod x m" by (simp add: py_fmod_def)
  from lt assms have "m * (x / m) < m * (of_int \<lfloor>x / m\<rfloor> + 1)"
    by (intro mult_strict_left_mono) simp_all
  with xm show "py_fmod x m < m" by (simp add: py_fmod_def algebra_simps)
qed

lemma chiral_phase_C_closed_range:
  "- pi / 2 \<le> chiral_phase_C z1 z2 \<and> chiral_phase_C z1 z2 \<le> pi / 2"
proof -
  define w where "w = py_fmod (np_angle z1 - np_angle z2 + pi) (2 * pi) - pi"
  have "0 \<le> py_fmod (np_angle z1 - np_angle z2 + pi) (2 * pi)"
    and "py_fmod (np_angle z1 - np_angle z2 + pi) (2 * pi) < 2 * pi"
    by (rule py_fmod_range, simp)+
  then have w: "- pi \<le> w" "w < pi" by (simp_all add: w_def)
  have "chiral_phase_C z1 z2 =
      (let q2 = (if w > pi / 2 then pi - w else w)
       in if q2 < - pi / 2 then - pi - q2 else q2)"
    by (simp add: chiral_phase_C_def w_def Let_def)
  with w show ?thesis by (auto simp: Let_def)
qed

text \<open>
  C7, as the code has it: every element of the output of
  \<^verbatim>\<open>calculate_chiral_phase(Z1, Z2, "C")\<close> lies in the closed interval
  \<open>[-\<pi>/2, \<pi>/2]\<close>.
\<close>

theorem chiral_phase_C_output_range:
  assumes "calculate_chiral_phase Z1 Z2 ''C'' = Inr P"
    and "row \<in> set P" and "x \<in> set row"
  shows "- pi / 2 \<le> x \<and> x \<le> pi / 2"
proof (cases "concat Z1 = []")
  case True
  with assms(1) have "P = map (\<lambda>row. []) Z1"
    by (simp add: calculate_chiral_phase_def split: if_splits)
  with assms(2,3) show ?thesis by auto
next
  case False
  with assms(1) have P: "P = map (\<lambda>(r1, r2). map (\<lambda>(z1, z2). chiral_phase_C z1 z2) (zip r1 r2)) (zip Z1 Z2)"
    by (simp add: calculate_chiral_phase_def split: if_splits)
  from assms(2) obtain r1 r2 where "row = map (\<lambda>(z1, z2). chiral_phase_C z1 z2) (zip r1 r2)"
    unfolding P by auto
  with assms(3) obtain z1 z2 where "x = chiral_phase_C z1 z2" by auto
  then show ?thesis using chiral_phase_C_closed_range [of z1 z2] by simp
qed

theorem chiral_phase_C_output_range_witness:
  "calculate_chiral_phase [[\<i>]] [[\<i>]] ''C'' = Inr [[0]] \<and> - pi / 2 \<le> (0::real) \<and> (0::real) \<le> pi / 2"
proof -
  have e: "calculate_chiral_phase [[\<i>]] [[\<i>]] ''C'' = Inr [[0]]"
    by (simp add: calculate_chiral_phase_def chiral_phase_C_def np_angle_def py_fmod_def Let_def)
  from chiral_phase_C_output_range [OF e, of "[0]" 0] e show ?thesis by simp
qed

text \<open>
  C7, as the specification states it (the half-open interval \<open>(-\<pi>/2, \<pi>/2]\<close>), fails:
  for \<open>Z1 = -\<i>\<close> and \<open>Z2 = 1\<close> the phase difference is exactly \<open>-\<pi>/2\<close>, which neither fold
  moves.
\<close>

theorem chiral_phase_C_half_open_counterexample:
  "calculate_chiral_phase [[- \<i>]] [[1]] ''C'' = Inr [[- pi / 2]] \<and> \<not> (- pi / 2 < - pi / 2)"
proof -
  have "Arg 1 = 0" by (rule cis_Arg_unique) simp_all
  then show ?thesis
    by (simp add: calculate_chiral_phase_def chiral_phase_C_def np_angle_def py_fmod_def Let_def)
qed

subsection \<open>Reciprocal vectors\<close>

lemma cross3_orth:
  "dot3 (cross3 A B) A = 0" "dot3 (cross3 A B) B = 0"
  by (cases A; cases B; simp add: algebra_simps)+

lemma dot3_scale3_left: "dot3 (scale3 s A) B = s * dot3 A B"
  by (cases A; cases B) (simp add: algebra_simps)

lemma dot3_vdiv3_left: "dot3 (vdiv3 A d) B = dot3 A B / d"
  by (cases A; cases B) (simp add: add_divide_distrib)

lemma triple_cyclic:
  "dot3 (cross3 B C) A = dot3 A (cross3 B C)"
  "dot3 (cross3 C A) B = dot3 A (cross3 B C)"
  "dot3 (cross3 A B) C = dot3 A (cross3 B C)"
  by (cases A; cases B; cases C; simp add: algebra_simps)+

lemma det3_triple: "det3 (A, B, C) = dot3 A (cross3 B C)"
  by (cases A; cases B; cases C) (simp add: algebra_simps)

lemma SEDCalculator_init_fields:
  assumes "SEDCalculator_init tr nx ny nz ud dta = Inr c"
  shows "dot3 (a1 c) (cross3 (a2 c) (a3 c)) \<noteq> 0"
    and "b1 c = scale3 (2 * pi / \<bar>dot3 (a1 c) (cross3 (a2 c) (a3 c))\<bar>) (cross3 (a2 c) (a3 c))"
    and "b2 c = scale3 (2 * pi / \<bar>dot3 (a1 c) (cross3 (a2 c) (a3 c))\<bar>) (cross3 (a3 c) (a1 c))"
    and "b3 c = scale3 (2 * pi / \<bar>dot3 (a1 c) (cross3 (a2 c) (a3 c))\<bar>) (cross3 (a1 c) (a2 c))"
  using assms
  by (auto simp: SEDCalculator_init_def Let_def isclose_def matrix_rank_lt3_def det3_triple
      split: if_splits option.splits)

lemma dual_diag:
  "dot3 (scale3 s (cross3 B C)) A = s * dot3 A (cross3 B C)"
  "dot3 (scale3 s (cross3 C A)) B = s * dot3 A (cross3 B C)"
  "dot3 (scale3 s (cross3 A B)) C = s * dot3 A (cross3 B C)"
  by (cases A; cases B; cases C; simp add: algebra_simps)+

lemma dual_off:
  "dot3 (scale3 s (cross3 A B)) A = 0"
  "dot3 (scale3 s (cross3 A B)) B = 0"
  by (cases A; cases B; simp add: algebra_simps)+

lemma dual_diag_div:
  "dot3 (vdiv3 (scale3 s (cross3 B C)) V) A = s * dot3 A (cross3 B C) / V"
  "dot3 (vdiv3 (scale3 s (cross3 C A)) V) B = s * dot3 A (cross3 B C) / V"
  "dot3 (vdiv3 (scale3 s (cross3 A B)) V) C = s * dot3 A (cross3 B C) / V"
  by (cases A; cases B; cases C; simp add: algebra_simps add_divide_distrib diff_divide_distrib)+

lemma dual_off_div:
  "dot3 (vdiv3 (scale3 s (cross3 A B)) V) A = 0"
  "dot3 (vdiv3 (scale3 s (cross3 A B)) V) B = 0"
  by (simp_all add: dot3_vdiv3_left dual_off)

lemma SEDCalculator_reciprocal_dual_signed:
  assumes "SEDCalculator_init tr nx ny nz ud dta = Inr c"
  shows "dot3 (b1 c) (a1 c) = 2 * pi * sgn (dot3 (a1 c) (cross3 (a2 c) (a3 c))) \<and>
         dot3 (b1 c) (a2 c) = 0 \<and> dot3 (b1 c) (a3 c) = 0 \<and>
         dot3 (b2 c) (a1 c) = 0 \<and>
         dot3 (b2 c) (a2 c) = 2 * pi * sgn (dot3 (a1 c) (cross3 (a2 c) (a3 c))) \<and>
         dot3 (b2 c) (a3 c) = 0 \<and>
         dot3 (b3 c) (a1 c) = 0 \<and> dot3 (b3 c) (a2 c) = 0 \<and>
         dot3 (b3 c) (a3 c) = 2 * pi * sgn (dot3 (a1 c) (cross3 (a2 c) (a3 c)))"
proof -
  note f = SEDCalculator_init_fields [OF assms(1)]
  define V where "V = dot3 (a1 c) (cross3 (a2 c) (a3 c))"
  have V: "2 * pi / \<bar>V\<bar> * V = 2 * pi * sgn V"
    using f(1) by (simp add: sgn_real_def V_def)
  have d1: "dot3 (b1 c) (a1 c) = 2 * pi * sgn V"
    unfolding f(2) dual_diag(1) by (fold V_def) (rule V)
  have d2: "dot3 (b2 c) (a2 c) = 2 * pi * sgn V"
    unfolding f(3) dual_diag(2) by (fold V_def) (rule V)
  have d3: "dot3 (b3 c) (a3 c) = 2 * pi * sgn V"
    unfolding f(4) dual_diag(3) by (fold V_def) (rule V)
  have o: "dot3 (b1 c) (a2 c) = 0" "dot3 (b1 c) (a3 c) = 0"
    "dot3 (b2 c) (a3 c) = 0" "dot3 (b2 c) (a1 c) = 0"
    "dot3 (b3 c) (a1 c) = 0" "dot3 (b3 c) (a2 c) = 0"
    unfolding f(2,3,4) by (rule dual_off)+
  from d1 d2 d3 o show ?thesis by (simp add: V_def)
qed

lemma SDCalculator_reciprocal_dual:
  assumes "SDCalculator_init cell nx ny nz = Inr c"
    and "dot3 (sd_a1 c) (cross3 (sd_a2 c) (sd_a3 c)) \<noteq> 0"
  shows "dot3 (fst (sd_recip_vectors c)) (sd_a1 c) = 2 * pi \<and>
         dot3 (fst (sd_recip_vectors c)) (sd_a2 c) = 0 \<and>
         dot3 (fst (sd_recip_vectors c)) (sd_a3 c) = 0 \<and>
         dot3 (fst (snd (sd_recip_vectors c))) (sd_a1 c) = 0 \<and>
         dot3 (fst (snd (sd_recip_vectors c))) (sd_a2 c) = 2 * pi \<and>
         dot3 (fst (snd (sd_recip_vectors c))) (sd_a3 c) = 0 \<and>
         dot3 (snd (snd (sd_recip_vectors c))) (sd_a1 c) = 0 \<and>
         dot3 (snd (snd (sd_recip_vectors c))) (sd_a2 c) = 0 \<and>
         dot3 (snd (snd (sd_recip_vectors c))) (sd_a3 c) = 2 * pi"
proof -
  define A1 where "A1 = vdiv3 (column3 cell 0) (of_int nx)"
  define A2 where "A2 = vdiv3 (column3 cell 1) (of_int ny)"
  define A3 where "A3 = vdiv3 (column3 cell 2) (of_int nz)"
  define V where "V = dot3 A1 (cross3 A2 A3)"
  from assms(1) have c: "c = \<lparr>sd_a1 = A1, sd_a2 = A2, sd_a3 = A3,
      sd_recip_vectors = (vdiv3 (scale3 (2 * pi) (cross3 A2 A3)) V,
                          vdiv3 (scale3 (2 * pi) (cross3 A3 A1)) V,
                          vdiv3 (scale3 (2 * pi) (cross3 A1 A2)) V)\<rparr>"
    by (simp add: SDCalculator_init_def Let_def A1_def A2_def A3_def V_def split: if_splits)
  from assms(2) have V0: "V \<noteq> 0" by (simp add: c V_def)
  have d: "dot3 (vdiv3 (scale3 (2 * pi) (cross3 A2 A3)) V) A1 = 2 * pi"
    "dot3 (vdiv3 (scale3 (2 * pi) (cross3 A3 A1)) V) A2 = 2 * pi"
    "dot3 (vdiv3 (scale3 (2 * pi) (cross3 A1 A2)) V) A3 = 2 * pi"
    using V0 dual_diag_div(1) [of "2 * pi" A2 A3 V A1] dual_diag_div(2) [of "2 * pi" A3 A1 V A2]
      dual_diag_div(3) [of "2 * pi" A1 A2 V A3]
    by (simp_all add: V_def)
  show ?thesis
    by (simp add: c d dual_off_div)
qed

text \<open>
  C1: the reciprocal vectors should satisfy \<open>b\<^sub>i \<cdot> a\<^sub>j = 2\<pi> \<delta>\<^sub>i\<^sub>j\<close>. The lemma above shows
  what \<^verbatim>\<open>SEDCalculator.__init__\<close> gives: \<open>2\<pi>\<close> times the sign of the scalar triple
  product on the diagonal, because the reciprocal vectors are divided by the absolute
  value of the volume. For the left-handed box with rows \<open>(1,0,0)\<close>, \<open>(0,1,0)\<close>,
  \<open>(0,0,-1)\<close> and \<open>nx = ny = nz = 1\<close> the constructor succeeds and every diagonal product is
  \<open>-2\<pi>\<close>. The legacy constructor of \<^verbatim>\<open>SDA.py\<close> divides by the signed volume and
  satisfies the property (lemma \<open>SDCalculator_reciprocal_dual\<close>).
\<close>

theorem SEDCalculator_reciprocal_dual_left_handed:
  "case SEDCalculator_init
          \<lparr>positions = [], velocities = [], atom_types = [],
           box_matrix = ((1, 0, 0), (0, 1, 0), (0, 0, - 1)), traj_dt_ps = Some 1\<rparr>
          1 1 1 False None of
     Inl e \<Rightarrow> False
   | Inr c \<Rightarrow> dot3 (b1 c) (a1 c) = - (2 * pi) \<and> dot3 (b2 c) (a2 c) = - (2 * pi) \<and>
             dot3 (b3 c) (a3 c) = - (2 * pi) \<and> dot3 (b1 c) (a1 c) \<noteq> 2 * pi"
  by (simp add: SEDCalculator_init_def Let_def norm3_def isclose_def matrix_rank_lt3_def)

subsection \<open>Atom groups\<close>

lemma type_groups_snd:
  "snd (type_groups tys gs) = filter (\<lambda>g. g \<noteq> []) (map (atoms_of_types tys) gs)"
  by (induction gs) (simp_all add: Let_def)

lemma list_all_PInt_map [simp]: "list_all is_PInt (map PInt ts)"
  by (induction ts) simp_all

lemma list_all_PList_map_PInt [simp]: "ts \<noteq> [] \<Longrightarrow> \<not> list_all is_PList (map PInt ts)"
  by (cases ts) simp_all

text \<open>
  C10: when \<^verbatim>\<open>basis_atom_types\<close> is a (non-empty) flat list of integers, the grouping
  depends on the summation mode: under \<^verbatim>\<open>'incoherent'\<close> every listed type is a group of
  its own, under \<^verbatim>\<open>'coherent'\<close> all listed types form one group. The atom groups that
  result are the non-empty ones among the atoms of each type, respectively of all types.
\<close>

theorem flat_type_list_grouping_by_mode:
  assumes "ts \<noteq> []"
  shows "process_basis_atom_types (BT_list (map PInt ts)) ''incoherent'' = Inr (map (\<lambda>t. [t]) ts) \<and>
         process_basis_atom_types (BT_list (map PInt ts)) ''coherent'' = Inr [ts] \<and>
         snd (basis_atom_groups tr bi (Some (BT_list (map PInt ts))) ''incoherent'') =
           Inr (filter (\<lambda>g. g \<noteq> []) (map (\<lambda>t. atoms_of_types (atom_types tr) [t]) ts)) \<and>
         snd (basis_atom_groups tr bi (Some (BT_list (map PInt ts))) ''coherent'') =
           Inr (filter (\<lambda>g. g \<noteq> []) [atoms_of_types (atom_types tr) ts])"
proof -
  have p1: "process_basis_atom_types (BT_list (map PInt ts)) ''incoherent'' = Inr (map (\<lambda>t. [t]) ts)"
    using assms by (simp add: process_basis_atom_types_def comp_def)
  have p2: "process_basis_atom_types (BT_list (map PInt ts)) ''coherent'' = Inr [ts]"
    using assms by (simp add: process_basis_atom_types_def comp_def)
  show ?thesis
    by (simp add: p1 p2 basis_atom_groups_def Let_def type_groups_snd comp_def)
qed

theorem flat_type_list_grouping_by_mode_witness:
  "snd (basis_atom_groups \<lparr>positions = [], velocities = [], atom_types = [1, 2, 1],
           box_matrix = ((1, 0, 0), (0, 1, 0), (0, 0, 1)), traj_dt_ps = Some 1\<rparr>
          None (Some (BT_list (map PInt [1, 2]))) ''incoherent'') = Inr [[0, 2], [1]] \<and>
   snd (basis_atom_groups \<lparr>positions = [], velocities = [], atom_types = [1, 2, 1],
           box_matrix = ((1, 0, 0), (0, 1, 0), (0, 0, 1)), traj_dt_ps = Some 1\<rparr>
          None (Some (BT_list (map PInt [1, 2]))) ''coherent'') = Inr [[0, 1, 2]]"
proof -
  have ne: "[1, 2 :: int] \<noteq> []" by simp
  have u: "[0..<3] = [0, 1, 2]" by (simp add: upt_rec)
  show ?thesis
    using flat_type_list_grouping_by_mode [OF ne, of "\<lparr>positions = [], velocities = [], atom_types = [1, 2, 1],
           box_matrix = ((1, 0, 0), (0, 1, 0), (0, 0, 1)), traj_dt_ps = Some 1\<rparr>" None]
    by (simp add: atoms_of_types_def u)
qed

lemma basis_atom_groups_both:
  "basis_atom_groups tr (Some bi) (Some bt) mode =
     (WarnBothBasis # fst (basis_atom_groups tr None (Some bt) mode),
      snd (basis_atom_groups tr None (Some bt) mode))"
  by (simp add: basis_atom_groups_def Let_def split: sum.splits)

lemma determine_atom_groups_both:
  "determine_atom_groups tr (Some bi) (Some bt) mode =
     (WarnBothBasis # fst (determine_atom_groups tr None (Some bt) mode),
      snd (determine_atom_groups tr None (Some bt) mode))"
  by (simp add: determine_atom_groups_def basis_atom_groups_both split: prod.splits sum.splits)

lemma snd_fold_cong:
  assumes "\<And>i st st'. snd st = snd st' \<Longrightarrow> snd (f i st) = snd (f i st')"
    and "snd st = snd st'"
  shows "snd (fold f xs st) = snd (fold f xs st')"
  using assms(2)
proof (induction xs arbitrary: st st')
  case Nil
  then show ?case by simp
next
  case (Cons x xs)
  have "snd (f x st) = snd (f x st')" by (rule assms(1)) (rule Cons.prems)
  from Cons.IH [OF this] show ?case by simp
qed

lemma coherent_chunk_snd:
  "snd st = snd st' \<Longrightarrow>
   snd (coherent_chunk c ks gs mp cs i st) = snd (coherent_chunk c ks gs mp cs i st')"
  by (simp add: coherent_chunk_def Let_def)

lemma incoherent_chunk_snd:
  "snd st = snd st' \<Longrightarrow>
   snd (incoherent_chunk c ks gs mp nf cs i st) = snd (incoherent_chunk c ks gs mp nf cs i st')"
  by (simp add: incoherent_chunk_def Let_def)

lemma transform_chunks_snd:
  "snd (transform_chunks c km kv mp fr gs mode kgs cs ws) =
   snd (transform_chunks c km kv mp fr gs mode kgs cs ws')"
proof -
  have a: "snd (fold (coherent_chunk c kv gs mp n) xs (w1, full)) =
           snd (fold (coherent_chunk c kv gs mp n) xs (w2, full))" for n xs w1 w2 full
    by (rule snd_fold_cong) (auto intro: coherent_chunk_snd)
  have b: "snd (fold (incoherent_chunk c kv gs mp nf n) xs (w1, full)) =
           snd (fold (incoherent_chunk c kv gs mp nf n) xs (w2, full))" for nf n xs w1 w2 full
    by (rule snd_fold_cong) (auto intro: incoherent_chunk_snd)
  show ?thesis
    unfolding transform_chunks_def Let_def
    by (simp add: a [of _ _ "ws @ _" _ "ws' @ _"] b [of _ _ _ "ws @ _" _ "ws' @ _"])
qed

text \<open>
  A warning that is in the log before the chunk loop stays at its place: the loop only
  appends to the log.
\<close>

lemma fold_log_prefix:
  assumes "\<And>i l full. f i (w # l, full) = (w # fst (f i (l, full)), snd (f i (l, full)))"
  shows "fold f xs (w # l, full) = (w # fst (fold f xs (l, full)), snd (fold f xs (l, full)))"
proof (induction xs arbitrary: l full)
  case Nil
  then show ?case by simp
next
  case (Cons x xs)
  have "fold f (x # xs) (w # l, full) = fold f xs (f x (w # l, full))" by simp
  also have "\<dots> = fold f xs (w # fst (f x (l, full)), snd (f x (l, full)))"
    by (simp only: assms)
  also have "\<dots> = (w # fst (fold f xs (fst (f x (l, full)), snd (f x (l, full)))),
                     snd (fold f xs (fst (f x (l, full)), snd (f x (l, full)))))"
    by (rule Cons.IH)
  finally show ?case by simp
qed

lemma coherent_chunk_log_prefix:
  "coherent_chunk c ks gs mp cs i (w # l, full) =
     (w # fst (coherent_chunk c ks gs mp cs i (l, full)),
      snd (coherent_chunk c ks gs mp cs i (l, full)))"
  by (simp add: coherent_chunk_def Let_def)

lemma incoherent_chunk_log_prefix:
  "incoherent_chunk c ks gs mp nf cs i (w # l, full) =
     (w # fst (incoherent_chunk c ks gs mp nf cs i (l, full)),
      snd (incoherent_chunk c ks gs mp nf cs i (l, full)))"
  by (simp add: incoherent_chunk_def Let_def)

lemma transform_chunks_log_prefix:
  "transform_chunks c km kv mp fr gs mode kgs cs (w # ws) =
     (w # fst (transform_chunks c km kv mp fr gs mode kgs cs ws),
      snd (transform_chunks c km kv mp fr gs mode kgs cs ws))"
proof -
  have a: "fold (coherent_chunk c kv gs mp n) xs (w # l, full) =
           (w # fst (fold (coherent_chunk c kv gs mp n) xs (l, full)),
            snd (fold (coherent_chunk c kv gs mp n) xs (l, full)))" for n xs l full
    by (rule fold_log_prefix) (rule coherent_chunk_log_prefix)
  have b: "fold (incoherent_chunk c kv gs mp nf n) xs (w # l, full) =
           (w # fst (fold (incoherent_chunk c kv gs mp nf n) xs (l, full)),
            snd (fold (incoherent_chunk c kv gs mp nf n) xs (l, full)))" for nf n xs l full
    by (rule fold_log_prefix) (rule incoherent_chunk_log_prefix)
  show ?thesis
    unfolding transform_chunks_def Let_def
    by (simp add: a b)
qed

lemma example_calculate_types_only:
  "calculate example_calc [0, 1] [(0, 0, 0), (1, 0, 0)] None (Some (BT_list [PInt 2]))
      ''coherent'' None 2 =
     ([], Inr \<lparr>sed = ComplexData [[[0, 1, 0], [0, 1, 0]]], sed_shape = [1, 2, 3], freqs = [0],
               k_points = [0, 1], k_vectors = [(0, 0, 0), (1, 0, 0)], k_grid_shape = None,
               is_complex = True, phase = None\<rparr>)"
  by (simp add: calculate_def example_calc_def example_traj_def n_frames_def n_atoms_def Let_def
      determine_atom_groups_def basis_atom_groups_def transform_chunks_def coherent_chunk_def
      process_basis_atom_types_def atoms_of_types_def
      final_group_indices_def calculate_sed_for_group_def fft_axis0_def twiddle_def
      assign_cols_def mean_axis0_def fftfreq_def upt_rec)

text \<open>
  C4, as the code has it: when both selectors are given, \<^verbatim>\<open>basis_atom_types\<close> decides
  the atom groups and \<^verbatim>\<open>basis_atom_indices\<close> is not read at all, not even checked against
  the number of atoms. The SED entity that \<^verbatim>\<open>calculate\<close> returns, or the error it raises, is
  the one of the call without indices. For a valid summation mode and a trajectory with at
  least one frame and one atom the log is the log of the call without indices preceded by
  the warning of the conflict; for an invalid mode, or without frames or atoms,
  \<^verbatim>\<open>calculate\<close> returns before it looks at the selectors, and the two calls are the same,
  log included.
\<close>

theorem basis_atom_types_take_precedence:
  "calculate c km kv (Some bi) (Some bt) mode kgs cs =
     (if (mode = ''coherent'' \<or> mode = ''incoherent'') \<and>
         0 < n_frames (traj c) \<and> 0 < n_atoms (traj c)
      then (WarnBothBasis # fst (calculate c km kv None (Some bt) mode kgs cs),
            snd (calculate c km kv None (Some bt) mode kgs cs))
      else calculate c km kv None (Some bt) mode kgs cs)"
proof (cases "(mode = ''coherent'' \<or> mode = ''incoherent'') \<and>
         0 < n_frames (traj c) \<and> 0 < n_atoms (traj c)")
  case False
  then show ?thesis by (auto simp: calculate_def Let_def)
next
  case True
  obtain ws r where d: "determine_atom_groups (traj c) None (Some bt) mode = (ws, r)"
    by (cases "determine_atom_groups (traj c) None (Some bt) mode")
  have d': "determine_atom_groups (traj c) (Some bi) (Some bt) mode = (WarnBothBasis # ws, r)"
    by (simp add: determine_atom_groups_both d)
  show ?thesis
  proof (cases r)
    case (Inl e)
    with True d d' show ?thesis by (auto simp: calculate_def Let_def)
  next
    case (Inr gs)
    with True d d' show ?thesis
      by (auto simp: calculate_def Let_def transform_chunks_log_prefix)
  qed
qed

text \<open>
  On the example (atom 0 of type 1 with velocity \<open>(1, 0, 0)\<close>, atom 1 of type 2 with
  velocity \<open>(0, 1, 0)\<close>), indices \<open>[0]\<close> and types \<open>[2]\<close> give the amplitude of atom 1 and
  the warning.
\<close>

theorem basis_atom_types_take_precedence_witness:
  "calculate example_calc [0, 1] [(0, 0, 0), (1, 0, 0)] (Some (BI_list [PInt 0]))
      (Some (BT_list [PInt 2])) ''coherent'' None 2 =
     ([WarnBothBasis],
      Inr \<lparr>sed = ComplexData [[[0, 1, 0], [0, 1, 0]]], sed_shape = [1, 2, 3], freqs = [0],
           k_points = [0, 1], k_vectors = [(0, 0, 0), (1, 0, 0)], k_grid_shape = None,
           is_complex = True, phase = None\<rparr>)"
  using basis_atom_types_take_precedence [of example_calc "[0, 1]" "[(0, 0, 0), (1, 0, 0)]"
      "BI_list [PInt 0]" "BT_list [PInt 2]" "''coherent''" None 2]
  by (simp add: example_calculate_types_only) (simp add: example_calc_def example_traj_def n_frames_def n_atoms_def)

text \<open>
  C4, as the specification states it (explicit indices take precedence), fails: on the
  example, with indices \<open>[0]\<close> and types \<open>[2]\<close>, \<^verbatim>\<open>calculate\<close> returns the amplitude
  \<open>(0, 1, 0)\<close> of atom 1, the atom of type 2, where the indices alone give the amplitude
  \<open>(1, 0, 0)\<close> of atom 0.
\<close>

theorem indices_precedence_counterexample:
  "calculate example_calc [0] [(0, 0, 0)] (Some (BI_list [PInt 0])) (Some (BT_list [PInt 2]))
      ''coherent'' None 1 =
     ([WarnBothBasis],
      Inr \<lparr>sed = ComplexData [[[0, 1, 0]]], sed_shape = [1, 1, 3], freqs = [0],
           k_points = [0], k_vectors = [(0, 0, 0)], k_grid_shape = None,
           is_complex = True, phase = None\<rparr>) \<and>
   calculate example_calc [0] [(0, 0, 0)] (Some (BI_list [PInt 0])) None ''coherent'' None 1 =
     ([],
      Inr \<lparr>sed = ComplexData [[[1, 0, 0]]], sed_shape = [1, 1, 3], freqs = [0],
           k_points = [0], k_vectors = [(0, 0, 0)], k_grid_shape = None,
           is_complex = True, phase = None\<rparr>) \<and>
   snd (calculate example_calc [0] [(0, 0, 0)] (Some (BI_list [PInt 0]))
          (Some (BT_list [PInt 2])) ''coherent'' None 1) \<noteq>
   snd (calculate example_calc [0] [(0, 0, 0)] (Some (BI_list [PInt 0])) None ''coherent'' None 1)"
proof -
  have a: "calculate example_calc [0] [(0, 0, 0)] (Some (BI_list [PInt 0]))
      (Some (BT_list [PInt 2])) ''coherent'' None 1 =
     ([WarnBothBasis],
      Inr \<lparr>sed = ComplexData [[[0, 1, 0]]], sed_shape = [1, 1, 3], freqs = [0],
           k_points = [0], k_vectors = [(0, 0, 0)], k_grid_shape = None,
           is_complex = True, phase = None\<rparr>)"
    by (simp add: calculate_def example_calc_def example_traj_def n_frames_def n_atoms_def Let_def
      determine_atom_groups_def basis_atom_groups_def transform_chunks_def coherent_chunk_def
      process_basis_atom_types_def atoms_of_types_def
      final_group_indices_def calculate_sed_for_group_def fft_axis0_def twiddle_def
      assign_cols_def mean_axis0_def fftfreq_def upt_rec)
  have b: "calculate example_calc [0] [(0, 0, 0)] (Some (BI_list [PInt 0])) None ''coherent'' None 1 =
     ([],
      Inr \<lparr>sed = ComplexData [[[1, 0, 0]]], sed_shape = [1, 1, 3], freqs = [0],
           k_points = [0], k_vectors = [(0, 0, 0)], k_grid_shape = None,
           is_complex = True, phase = None\<rparr>)"
    by (simp add: calculate_def example_calc_def example_traj_def n_frames_def n_atoms_def Let_def
      determine_atom_groups_def basis_atom_groups_def transform_chunks_def coherent_chunk_def
      process_basis_atom_indices_def
      final_group_indices_def calculate_sed_for_group_def fft_axis0_def twiddle_def
      assign_cols_def mean_axis0_def fftfreq_def upt_rec)
  show ?thesis unfolding a b by simp
qed

subsection \<open>k-path\<close>

lemma example_calc_init: "SEDCalculator_init example_traj 1 1 1 False None = Inr example_calc"
  by (simp add: SEDCalculator_init_def example_traj_def example_calc_def Let_def norm3_def
      isclose_def matrix_rank_lt3_def)

lemma norm3_nonneg: "0 \<le> norm3 v"
  by (cases v) (simp add: norm3_def)

lemma norm3_scale3: "norm3 (scale3 m u) = \<bar>m\<bar> * norm3 u"
proof (cases u)
  case (fields x y z)
  have "(m * x) * (m * x) + (m * y) * (m * y) + (m * z) * (m * z) = m\<^sup>2 * (x * x + y * y + z * z)"
    by (simp add: algebra_simps power2_eq_square)
  then show ?thesis
    by (simp add: fields norm3_def real_sqrt_mult)
qed

lemma vdiv3_scale3: "vdiv3 v d = scale3 (1 / d) v"
  by (cases v) simp

lemma norm3_vdiv3_self: "0 < norm3 v \<Longrightarrow> norm3 (vdiv3 v (norm3 v)) = 1"
  by (simp add: vdiv3_scale3 norm3_scale3)

lemma parse_direction_unit:
  assumes "parse_direction pf d = Inr u"
  shows "norm3 u = 1"
proof -
  from assms obtain v where v: "parse_direction_sda pf d = Inr v" and u: "u = vdiv3 v (norm3 v)"
    by (auto simp: parse_direction_def split: sum.splits)
  from v have "\<not> norm3 v < 1 / 10 ^ 10"
    by (auto simp: parse_direction_sda_def split: sum.splits if_splits)
  then have "0 < norm3 v" by (simp add: not_less)
  then show ?thesis by (simp add: u norm3_vdiv3_self)
qed

lemma recip_extent_of_pos:
  assumes "recip_extent_of c u lp = Inr r"
  shows "0 < r"
proof -
  have e: "(0::real) < 1 / 10 ^ 6" by simp
  from assms show ?thesis
    using e
    by (auto simp: recip_extent_of_def Let_def split: if_splits option.splits
        intro: divide_pos_pos less_trans [OF e])
qed

lemma length_linspace: "length (linspace a b n) = n"
  by (simp add: linspace_def)

lemma linspace_mem_nonneg:
  assumes "0 \<le> b" "x \<in> set (linspace 0 b n)"
  shows "0 \<le> x"
  using assms by (auto simp: linspace_def split: if_splits)

lemma sorted_linspace:
  assumes "0 \<le> b"
  shows "sorted (linspace 0 b n)"
proof -
  consider "n = 0" | "n = 1" | "2 \<le> n" by linarith
  then show ?thesis
  proof cases
    case 3
    define s where "s = b / real (n - 1)"
    have s: "0 \<le> s" using assms by (simp add: s_def)
    have top: "real i * s \<le> b" if "i < n - 1" for i
    proof -
      have "real i * s \<le> real (n - 1) * s" using that s by (intro mult_right_mono) simp_all
      also have "\<dots> = b" using 3 by (simp add: s_def)
      finally show ?thesis .
    qed
    have mono: "sorted (map (\<lambda>i. real i * s) [0..<n - 1])"
      by (rule sorted_map [THEN iffD2]) (auto simp: sorted_wrt_iff_nth_less intro!: mult_right_mono s)
    have "linspace 0 b n = map (\<lambda>i. real i * s) [0..<n - 1] @ [b]"
      using 3 by (simp add: linspace_def s_def)
    then show ?thesis using mono top by (auto simp: sorted_append)
  qed (simp_all add: linspace_def)
qed

lemma hd_linspace: "2 \<le> n \<Longrightarrow> hd (linspace a b n) = a"
  by (simp add: linspace_def hd_append hd_map upt_conv_Cons)

lemma last_linspace: "2 \<le> n \<Longrightarrow> last (linspace a b n) = b"
  by (simp add: linspace_def)

lemma get_k_path_Inr:
  assumes "get_k_path pf c d bz n_k lp = Inr (k_mags, k_vecs)"
  obtains u r where "parse_direction pf d = Inr u" "recip_extent_of c u lp = Inr r" "1 \<le> n_k"
    "k_mags = (if n_k > 1 then linspace 0 (bz * r) (nat n_k)
               else [if isclose (bz * r) 0 then 0 else bz * r])"
    "k_vecs = map (\<lambda>m. scale3 m u) k_mags"
  using assms
  by (auto simp: get_k_path_def Let_def split: sum.splits if_splits)

lemma get_k_path_nonneg:
  assumes "get_k_path pf c d bz n_k lp = Inr (k_mags, k_vecs)" and "0 \<le> bz" and "x \<in> set k_mags"
  shows "0 \<le> x"
proof -
  from assms(1) obtain u r where r: "recip_extent_of c u lp = Inr r"
    and m: "k_mags = (if n_k > 1 then linspace 0 (bz * r) (nat n_k)
               else [if isclose (bz * r) 0 then 0 else bz * r])"
    by (rule get_k_path_Inr)
  have "0 \<le> bz * r" using recip_extent_of_pos [OF r] assms(2) by simp
  with assms(3) show ?thesis
    by (auto simp: m split: if_splits intro: linspace_mem_nonneg)
qed

text \<open>
  C6, as the code has it: a call of \<^verbatim>\<open>get_k_path\<close> that returns gives \<^verbatim>\<open>n_k\<close>
  magnitudes (\<^verbatim>\<open>n_k \<ge> 1\<close>); the reciprocal extent \<open>r\<close> is positive; the sequence is
  non-decreasing when \<^verbatim>\<open>bz_coverage \<ge> 0\<close>; for \<^verbatim>\<open>n_k > 1\<close> it starts at 0 and ends at
  \<^verbatim>\<open>bz_coverage * r\<close>; for \<^verbatim>\<open>n_k = 1\<close> its only element is \<^verbatim>\<open>bz_coverage * r\<close>, or 0 when
  that product is within \<^verbatim>\<open>1e-8\<close> of 0.
\<close>

theorem get_k_path_magnitudes:
  assumes "get_k_path pf c d bz n_k lp = Inr (k_mags, k_vecs)"
  shows "\<exists>u r. parse_direction pf d = Inr u \<and> recip_extent_of c u lp = Inr r \<and> 0 < r \<and>
           1 \<le> n_k \<and> length k_mags = nat n_k \<and>
           (0 \<le> bz \<longrightarrow> sorted k_mags) \<and>
           (1 < n_k \<longrightarrow> hd k_mags = 0 \<and> last k_mags = bz * r) \<and>
           (n_k = 1 \<longrightarrow> last k_mags = (if isclose (bz * r) 0 then 0 else bz * r))"
proof -
  from assms obtain u r where p: "parse_direction pf d = Inr u"
    and r: "recip_extent_of c u lp = Inr r" and n: "1 \<le> n_k"
    and m: "k_mags = (if n_k > 1 then linspace 0 (bz * r) (nat n_k)
               else [if isclose (bz * r) 0 then 0 else bz * r])"
    by (rule get_k_path_Inr)
  have rpos: "0 < r" using r by (rule recip_extent_of_pos)
  have len: "length k_mags = nat n_k" using n by (auto simp: m length_linspace)
  have srt: "sorted k_mags" if "0 \<le> bz"
    using that rpos by (simp add: m sorted_linspace)
  have ends: "hd k_mags = 0 \<and> last k_mags = bz * r" if "1 < n_k"
    using that by (simp add: m hd_linspace last_linspace)
  have one: "last k_mags = (if isclose (bz * r) 0 then 0 else bz * r)" if "n_k = 1"
    using that by (simp add: m)
  from p r rpos n len srt ends one show ?thesis by blast
qed

theorem get_k_path_magnitudes_witness:
  "get_k_path (\<lambda>s. None) example_calc (DStr ''x'') 1 3 (Some 1) =
     Inr ([0, pi, 2 * pi], [(0, 0, 0), (pi, 0, 0), (2 * pi, 0, 0)]) \<and>
   length [0, pi, 2 * pi] = nat 3 \<and> sorted [0, pi, 2 * pi] \<and> hd [0, pi, 2 * pi] = 0"
proof -
  have e: "get_k_path (\<lambda>s. None) example_calc (DStr ''x'') 1 3 (Some 1) =
     Inr ([0, pi, 2 * pi], [(0, 0, 0), (pi, 0, 0), (2 * pi, 0, 0)])"
    by (simp add: get_k_path_def parse_direction_def parse_direction_sda_def
        parse_direction_vec_def str_lower_def char_lower_def norm3_def recip_extent_of_def
        linspace_def Let_def upt_rec)
  from get_k_path_magnitudes [OF e] e show ?thesis by auto
qed

text \<open>
  C6, as the specification states it, fails twice. With \<^verbatim>\<open>bz_coverage = -1\<close>, direction
  \<^verbatim>\<open>'x'\<close>, \<^verbatim>\<open>n_k = 2\<close> and lattice parameter 1 the magnitudes are \<open>[0, -2\<pi>]\<close>, a decreasing
  sequence. With \<^verbatim>\<open>n_k = 1\<close>, \<^verbatim>\<open>bz_coverage = 1e-9\<close> and lattice parameter \<open>2\<pi>\<close> the single
  magnitude is 0 and not \<^verbatim>\<open>bz_coverage\<close> times the reciprocal extent 1.
\<close>

theorem get_k_path_magnitudes_counterexample:
  "get_k_path (\<lambda>s. None) example_calc (DStr ''x'') (- 1) 2 (Some 1) =
     Inr ([0, - (2 * pi)], [(0, 0, 0), (- (2 * pi), 0, 0)]) \<and>
   \<not> sorted [0, - (2 * pi)] \<and>
   get_k_path (\<lambda>s. None) example_calc (DSeq [1, 0, 0]) (1 / 10 ^ 9) 1 (Some (2 * pi)) =
     Inr ([0], [(0, 0, 0)]) \<and>
   recip_extent_of example_calc (1, 0, 0) (Some (2 * pi)) = Inr 1 \<and>
   last [0] \<noteq> (1 / 10 ^ 9) * (1 :: real)"
proof -
  have a: "get_k_path (\<lambda>s. None) example_calc (DStr ''x'') (- 1) 2 (Some 1) =
     Inr ([0, - (2 * pi)], [(0, 0, 0), (- (2 * pi), 0, 0)]) \<and> \<not> sorted [0, - (2 * pi)]"
    by (simp add: not_le get_k_path_def parse_direction_def parse_direction_sda_def
        parse_direction_vec_def str_lower_def char_lower_def norm3_def recip_extent_of_def
        linspace_def Let_def upt_rec)
  have b: "get_k_path (\<lambda>s. None) example_calc (DSeq [1, 0, 0]) (1 / 10 ^ 9) 1 (Some (2 * pi)) =
     Inr ([0], [(0, 0, 0)]) \<and> recip_extent_of example_calc (1, 0, 0) (Some (2 * pi)) = Inr 1"
    using pi_ge_two
    by (simp add: get_k_path_def parse_direction_def parse_direction_sda_def
        parse_direction_vec_def norm3_def recip_extent_of_def linspace_def isclose_def Let_def)
  from a b show ?thesis by simp
qed

text \<open>
  C5, as the code has it (with the direction parser modelled from the specification):
  the direction is a unit vector \<open>u\<close>, the \<open>i\<close>-th k-vector is the \<open>i\<close>-th magnitude times
  \<open>u\<close>, and its Euclidean norm is the absolute value of the \<open>i\<close>-th magnitude, which is
  the magnitude itself when \<^verbatim>\<open>bz_coverage \<ge> 0\<close>.
\<close>

theorem get_k_path_vectors:
  assumes "get_k_path pf c d bz n_k lp = Inr (k_mags, k_vecs)" and "i < length k_mags"
  shows "\<exists>u. parse_direction pf d = Inr u \<and> norm3 u = 1 \<and> length k_vecs = length k_mags \<and>
           k_vecs ! i = scale3 (k_mags ! i) u \<and> norm3 (k_vecs ! i) = \<bar>k_mags ! i\<bar> \<and>
           (0 \<le> bz \<longrightarrow> norm3 (k_vecs ! i) = k_mags ! i)"
proof -
  from assms(1) obtain u r where p: "parse_direction pf d = Inr u"
    and v: "k_vecs = map (\<lambda>m. scale3 m u) k_mags"
    by (rule get_k_path_Inr)
  have u1: "norm3 u = 1" using p by (rule parse_direction_unit)
  have at: "k_vecs ! i = scale3 (k_mags ! i) u" using assms(2) by (simp add: v)
  have nrm: "norm3 (k_vecs ! i) = \<bar>k_mags ! i\<bar>" by (simp add: at norm3_scale3 u1)
  have "0 \<le> k_mags ! i" if "0 \<le> bz"
    using get_k_path_nonneg [OF assms(1) that] assms(2) by simp
  with p u1 at nrm show ?thesis by (auto simp: v)
qed

theorem get_k_path_vectors_witness:
  "get_k_path (\<lambda>s. None) example_calc (DSeq [2, 0, 0]) 1 3 (Some 1) =
     Inr ([0, pi, 2 * pi], [(0, 0, 0), (pi, 0, 0), (2 * pi, 0, 0)]) \<and>
   parse_direction (\<lambda>s. None) (DSeq [2, 0, 0]) = Inr (1, 0, 0) \<and>
   [(0, 0, 0), (pi, 0, 0), (2 * pi, 0, 0)] ! 1 = scale3 ([0, pi, 2 * pi] ! 1) (1, 0, 0) \<and>
   norm3 ([(0, 0, 0), (pi, 0, 0), (2 * pi, 0, 0)] ! 1) = [0, pi, 2 * pi] ! 1"
proof -
  have p: "parse_direction (\<lambda>s. None) (DSeq [2, 0, 0]) = Inr (1, 0, 0)"
    by (simp add: parse_direction_def parse_direction_sda_def parse_direction_vec_def norm3_def)
  have e: "get_k_path (\<lambda>s. None) example_calc (DSeq [2, 0, 0]) 1 3 (Some 1) =
     Inr ([0, pi, 2 * pi], [(0, 0, 0), (pi, 0, 0), (2 * pi, 0, 0)])"
    by (simp add: get_k_path_def p recip_extent_of_def linspace_def Let_def upt_rec)
  have i: "1 < length [0, pi, 2 * pi]" by simp
  from get_k_path_vectors [OF e i] p e show ?thesis by simp
qed

text \<open>
  C5, as the specification states it (the norm of a k-vector equals its magnitude), fails
  for a negative \<^verbatim>\<open>bz_coverage\<close>: with \<^verbatim>\<open>bz_coverage = -1\<close>, direction \<^verbatim>\<open>'x'\<close>, \<^verbatim>\<open>n_k = 2\<close>
  and lattice parameter 1 the second k-vector has norm \<open>2\<pi>\<close> and magnitude \<open>-2\<pi>\<close>.
\<close>

theorem get_k_path_vectors_counterexample:
  "get_k_path (\<lambda>s. None) example_calc (DStr ''x'') (- 1) 2 (Some 1) =
     Inr ([0, - (2 * pi)], [(0, 0, 0), (- (2 * pi), 0, 0)]) \<and>
   norm3 ([(0, 0, 0), (- (2 * pi), 0, 0)] ! 1) = 2 * pi \<and>
   norm3 ([(0, 0, 0), (- (2 * pi), 0, 0)] ! 1) \<noteq> [0, - (2 * pi)] ! 1"
  using real_sqrt_abs2 [of "2 * pi"]
  by (simp add: not_le get_k_path_def parse_direction_def parse_direction_sda_def
      parse_direction_vec_def str_lower_def char_lower_def norm3_def recip_extent_of_def
      linspace_def Let_def upt_rec)

subsection \<open>The chunk loop\<close>

lemma map2_same: "map2 f (map a xs) (map b xs) = map (\<lambda>x. f (a x) (b x)) xs"
  by (induction xs) simp_all

lemma assign_cols_map:
  "assign_cols (map A xs) s e (map C xs) = map (\<lambda>w. take s (A w) @ C w @ drop e (A w)) xs"
  by (simp add: assign_cols_def map2_same)

lemma fold_chunks:
  fixes cell :: "nat \<Rightarrow> 'k \<Rightarrow> 'a" and ks :: "'k list"
  assumes cs: "0 < cs"
    and step: "\<And>i st. step i st =
      (if drop (i * cs) (take (min ((i + 1) * cs) (length ks)) ks) = [] then st
       else (fst st, assign_cols (snd st) (i * cs) (min ((i + 1) * cs) (length ks))
               (map (\<lambda>w. map (cell w) (drop (i * cs) (take (min ((i + 1) * cs) (length ks)) ks)))
                  [0..<R])))"
  shows "fold step [0..<j] (ws, replicate R (replicate (length ks) z)) =
         (ws, map (\<lambda>w. map (cell w) (take (j * cs) ks) @ replicate (length ks - j * cs) z) [0..<R])"
proof (induction j)
  case 0
  show ?case by (simp add: map_replicate_const)
next
  case (Suc j)
  define n where "n = length ks"
  define s where "s = j * cs"
  define e where "e = min ((j + 1) * cs) n"
  define A where "A = (\<lambda>w. map (cell w) (take s ks) @ replicate (n - s) z)"
  have st: "fold step [0..<j] (ws, replicate R (replicate (length ks) z)) = (ws, map A [0..<R])"
    using Suc.IH by (simp add: A_def s_def n_def)
  have stepj: "step j st =
      (if drop s (take e ks) = [] then st
       else (fst st, assign_cols (snd st) s e
               (map (\<lambda>w. map (cell w) (drop s (take e ks))) [0..<R])))" for st
    unfolding s_def e_def n_def by (rule step)
  have goal: "step j (ws, map A [0..<R]) =
      (ws, map (\<lambda>w. map (cell w) (take (Suc j * cs) ks) @ replicate (n - Suc j * cs) z) [0..<R])"
  proof (cases "s < n")
    case False
    then have "drop s (take e ks) = []" by (simp add: e_def n_def)
    moreover have "take s ks = ks" "take (Suc j * cs) ks = ks" "n - s = 0" "n - Suc j * cs = 0"
      using False by (simp_all add: n_def s_def)
    ultimately show ?thesis
      by (simp add: stepj A_def)
  next
    case True
    have se: "s < e" "e \<le> n" using True cs by (simp_all add: e_def s_def)
    then have ne: "drop s (take e ks) \<noteq> []" by (simp add: n_def)
    have tk: "take s (A w) = map (cell w) (take s ks)" for w
      using True by (simp add: A_def n_def)
    have dr: "drop e (A w) = replicate (n - e) z" for w
      using se True by (simp add: A_def n_def min_def)
    have jn: "map (cell w) (take s ks) @ map (cell w) (drop s (take e ks)) = map (cell w) (take e ks)" for w
    proof -
      have "take s ks = take s (take e ks)" using se by (simp add: min_def)
      then have "take s ks @ drop s (take e ks) = take e ks" by (metis append_take_drop_id)
      then show ?thesis by (metis map_append)
    qed
    have te: "take (Suc j * cs) ks = take e ks"
      by (simp add: e_def n_def min_def)
    have re: "n - Suc j * cs = n - e"
      by (simp add: e_def min_def)
    have "step j (ws, map A [0..<R]) =
        (ws, assign_cols (map A [0..<R]) s e (map (\<lambda>w. map (cell w) (drop s (take e ks))) [0..<R]))"
      using ne by (simp add: stepj)
    also have "\<dots> = (ws, map (\<lambda>w. map (cell w) (take e ks) @ replicate (n - e) z) [0..<R])"
      by (simp add: assign_cols_map tk dr jn [symmetric])
    finally show ?thesis by (simp only: te re)
  qed
  have "fold step [0..<Suc j] (ws, replicate R (replicate (length ks) z)) =
      step j (fold step [0..<j] (ws, replicate R (replicate (length ks) z)))"
    by simp
  also have "\<dots> = step j (ws, map A [0..<R])" by (simp only: st)
  also note goal
  finally show ?case unfolding n_def .
qed

lemma fold_chunks_all:
  fixes cell :: "nat \<Rightarrow> 'k \<Rightarrow> 'a" and ks :: "'k list"
  assumes cs: "0 < cs"
    and step: "\<And>i st. step i st =
      (if drop (i * cs) (take (min ((i + 1) * cs) (length ks)) ks) = [] then st
       else (fst st, assign_cols (snd st) (i * cs) (min ((i + 1) * cs) (length ks))
               (map (\<lambda>w. map (cell w) (drop (i * cs) (take (min ((i + 1) * cs) (length ks)) ks)))
                  [0..<R])))"
    and j: "length ks \<le> j * cs"
  shows "fold step [0..<j] (ws, replicate R (replicate (length ks) z)) =
         (ws, map (\<lambda>w. map (cell w) ks) [0..<R])"
  using fold_chunks [OF cs step, of j ws z] j by simp

lemma num_chunks_cover:
  assumes "0 < (cs::nat)"
  shows "n \<le> ((n + cs - 1) div cs) * cs"
proof -
  have "n + cs - 1 = ((n + cs - 1) div cs) * cs + (n + cs - 1) mod cs" by simp
  moreover have "(n + cs - 1) mod cs \<le> cs - 1" using assms
    by (metis Suc_pred' less_Suc_eq_le mod_less_divisor)
  ultimately show ?thesis using assms by linarith
qed

lemma foldr_slabs:
  "foldr (\<lambda>(t, slab) acc. map2 (map2 (+)) (map (map (\<lambda>x. x * tw t)) slab) acc)
     (map (\<lambda>(t, d). (t, map (g d) ks)) ps) (replicate (length ks) z) =
   map (\<lambda>k. foldr (\<lambda>(t, d) acc. map2 (+) (map (\<lambda>x. x * tw t) (g d k)) acc) ps z) ks"
proof (induction ps)
  case Nil
  show ?case by (simp add: map_replicate_const)
next
  case (Cons p ps)
  obtain t d where p: "p = (t, d)" by (cases p)
  show ?case
    by (simp add: p Cons.IH map2_same comp_def)
qed

lemma fft_axis0_cols:
  "fft_axis0 (map (\<lambda>d. map (g d) ks) data) (length ks) =
   map (\<lambda>w. map (\<lambda>k. foldr (\<lambda>(t, d) acc.
                            map2 (+) (map (\<lambda>x. x * twiddle (length data) w t) (g d k)) acc)
                         (zip [0..<length data] data) [0, 0, 0]) ks)
     [0..<length data]"
  by (simp add: fft_axis0_def Let_def zip_map2 foldr_slabs)

lemma length_group_data:
  "length (velocities (traj c)) = n_frames (traj c) \<Longrightarrow>
   length (group_data c grp mp) = n_frames (traj c)"
  by (simp add: group_data_def n_frames_def)

lemma spatial_sum_fun:
  "spatial_sum data_t mpg =
     (\<lambda>k. map (\<lambda>pol_axis.
            sum_list (map2 (\<lambda>d ph. complex_of_real (comp3 d pol_axis) * ph) data_t
                        (map (\<lambda>r. exp (\<i> * complex_of_real (dot3 k r))) mpg)))
       [0, 1, 2])"
  by (rule ext) (simp add: spatial_sum_def)

lemma group_cell_Nil: "group_cell c [] mp w = (\<lambda>k. [0, 0, 0])"
  by (rule ext) (simp add: group_cell_def)

lemma calculate_sed_for_group_cols:
  assumes wf: "length (velocities (traj c)) = n_frames (traj c)"
  shows "calculate_sed_for_group c ks grp mp =
         map (\<lambda>w. map (group_cell c grp mp w) ks) [0..<n_frames (traj c)]"
proof (cases "grp = []")
  case True
  then show ?thesis
    by (simp add: calculate_sed_for_group_def group_cell_Nil Let_def map_replicate_const)
next
  case False
  define data where "data = group_data c grp mp"
  define mpg where "mpg = map (\<lambda>a. mp ! a) grp"
  have len: "length data = n_frames (traj c)"
    unfolding data_def using wf by (rule length_group_data)
  have unf: "calculate_sed_for_group c ks grp mp =
      (if n_frames (traj c) > 0
       then map (map (map (\<lambda>x. x / of_nat (n_frames (traj c)))))
              (fft_axis0 (map (\<lambda>d. map (spatial_sum d mpg) ks) data) (length ks))
       else [])"
    using False
    by (simp add: calculate_sed_for_group_def Let_def data_def mpg_def group_data_def
        spatial_sum_fun comp_def)
  have cell: "group_cell c grp mp w k =
      map (\<lambda>x. x / of_nat (n_frames (traj c)))
        (foldr (\<lambda>(t, d) acc. map2 (+) (map (\<lambda>x. x * twiddle (length data) w t)
                                          (spatial_sum d mpg k)) acc)
           (zip [0..<length data] data) [0, 0, 0])" for w k
    using False by (simp add: group_cell_def Let_def data_def mpg_def)
  show ?thesis
  proof (cases "n_frames (traj c) > 0")
    case True
    then show ?thesis
      by (simp add: unf fft_axis0_cols cell comp_def len)
  next
    case False
    then show ?thesis by (simp add: unf)
  qed
qed

lemma length_fftfreq [simp]: "length (fftfreq n d) = n"
  by (simp add: fftfreq_def)

lemma coherent_fold:
  assumes wf: "length (velocities (traj c)) = n_frames (traj c)"
    and fgi: "final_group_indices gs \<noteq> []"
    and cs: "0 < cs" and j: "length ks \<le> j * cs"
  shows "fold (coherent_chunk c ks gs mp cs) [0..<j]
           (ws, replicate (n_frames (traj c)) (replicate (length ks) [0, 0, 0])) =
         (ws, map (\<lambda>w. map (group_cell c (final_group_indices gs) mp w) ks) [0..<n_frames (traj c)])"
proof (rule fold_chunks_all [OF cs _ j])
  fix i st
  show "coherent_chunk c ks gs mp cs i st =
      (if drop (i * cs) (take (min ((i + 1) * cs) (length ks)) ks) = [] then st
       else (fst st, assign_cols (snd st) (i * cs) (min ((i + 1) * cs) (length ks))
               (map (\<lambda>w. map (group_cell c (final_group_indices gs) mp w)
                            (drop (i * cs) (take (min ((i + 1) * cs) (length ks)) ks)))
                  [0..<n_frames (traj c)])))"
    using fgi by (simp add: coherent_chunk_def Let_def calculate_sed_for_group_cols [OF wf])
qed

lemma power_pol_map:
  "power_pol (map (\<lambda>w. map (cell w) ks) ws) =
   map (\<lambda>w. map (\<lambda>k. sum_list (map (\<lambda>z. (cmod z)\<^sup>2) (cell w k))) ks) ws"
  by (simp add: power_pol_def comp_def)

lemma summed_intensity_fold:
  assumes wf: "length (velocities (traj c)) = n_frames (traj c)"
  shows "fold (\<lambda>grp_indices acc.
                 if grp_indices = [] then acc
                 else map2 (map2 (+)) acc
                        (power_pol (calculate_sed_for_group c cur grp_indices mp)))
           gs (map (\<lambda>w. map (a w) cur) [0..<n_frames (traj c)]) =
         map (\<lambda>w. map (\<lambda>k. fold (\<lambda>grp_indices acc.
                     if grp_indices = [] then acc
                     else acc + sum_list (map (\<lambda>z. (cmod z)\<^sup>2) (group_cell c grp_indices mp w k)))
                   gs (a w k)) cur) [0..<n_frames (traj c)]"
proof (induction gs arbitrary: a)
  case Nil
  show ?case by simp
next
  case (Cons g gs)
  show ?case
  proof (cases "g = []")
    case True
    then show ?thesis by (simp add: Cons.IH)
  next
    case False
    have "map2 (map2 (+)) (map (\<lambda>w. map (a w) cur) [0..<n_frames (traj c)])
            (power_pol (calculate_sed_for_group c cur g mp)) =
          map (\<lambda>w. map (\<lambda>k. a w k + sum_list (map (\<lambda>z. (cmod z)\<^sup>2) (group_cell c g mp w k))) cur)
            [0..<n_frames (traj c)]"
      by (simp add: calculate_sed_for_group_cols [OF wf] power_pol_map map2_same)
    then show ?thesis using False
      by (simp add: Cons.IH [of "\<lambda>w k. a w k + sum_list (map (\<lambda>z. (cmod z)\<^sup>2) (group_cell c g mp w k))"])
  qed
qed

lemma incoherent_fold:
  assumes wf: "length (velocities (traj c)) = n_frames (traj c)"
    and cs: "0 < cs" and j: "length ks \<le> j * cs"
  shows "fold (incoherent_chunk c ks gs mp (n_frames (traj c)) cs) [0..<j]
           (ws, replicate (n_frames (traj c)) (replicate (length ks) 0)) =
         (ws, map (\<lambda>w. map (incoherent_cell c gs mp w) ks) [0..<n_frames (traj c)])"
proof (rule fold_chunks_all [OF cs _ j])
  fix i st
  have z: "replicate (n_frames (traj c)) (replicate (length cur) (0::real)) =
      map (\<lambda>w. map (\<lambda>k. 0) cur) [0..<n_frames (traj c)]" for cur :: "vec3 list"
    by (simp add: map_replicate_const)
  show "incoherent_chunk c ks gs mp (n_frames (traj c)) cs i st =
      (if drop (i * cs) (take (min ((i + 1) * cs) (length ks)) ks) = [] then st
       else (fst st, assign_cols (snd st) (i * cs) (min ((i + 1) * cs) (length ks))
               (map (\<lambda>w. map (incoherent_cell c gs mp w)
                            (drop (i * cs) (take (min ((i + 1) * cs) (length ks)) ks)))
                  [0..<n_frames (traj c)])))"
    unfolding incoherent_chunk_def Let_def z summed_intensity_fold [OF wf] incoherent_cell_def
    by simp
qed

lemma check_index_groups_nonempty:
  "check_index_groups n gs = Inr r \<Longrightarrow> [] \<notin> set r"
  by (induction gs arbitrary: r) (auto split: if_splits sum.splits)

lemma basis_atom_groups_nonempty:
  assumes "snd (basis_atom_groups tr bi bt mode) = Inr gs"
  shows "[] \<notin> set gs"
  using assms
  by (auto simp: basis_atom_groups_def Let_def type_groups_snd
      split: option.splits sum.splits prod.splits dest: check_index_groups_nonempty)

lemma determine_atom_groups_nonempty:
  assumes "determine_atom_groups tr bi bt mode = (ws, Inr gs)" and "0 < n_atoms tr"
  shows "gs \<noteq> [] \<and> [] \<notin> set gs"
proof -
  from assms(1) obtain g0 where b: "snd (basis_atom_groups tr bi bt mode) = Inr g0"
    and gs: "gs = (if g0 = [] then [[0..<n_atoms tr]] else g0)"
    by (auto simp: determine_atom_groups_def split: prod.splits sum.splits)
  have "length [0..<n_atoms tr] \<noteq> length ([] :: nat list)" using assms(2) by simp
  then have "[] \<noteq> [0..<n_atoms tr]" by metis
  with basis_atom_groups_nonempty [OF b] show ?thesis
    by (auto simp: gs)
qed

lemma final_group_indices_nonempty:
  assumes "gs \<noteq> []" "[] \<notin> set gs"
  shows "final_group_indices gs \<noteq> []"
proof (cases gs)
  case Nil
  with assms show ?thesis by simp
next
  case (Cons g rest)
  with assms have g: "g \<noteq> []" by auto
  then have "set (concat gs) \<noteq> {}" by (auto simp: Cons)
  then have "sort (remdups (concat gs)) \<noteq> []"
    by (metis set_empty set_remdups set_sort)
  then show ?thesis using g by (simp add: final_group_indices_def Cons)
qed

lemma transform_chunks_closed:
  assumes wf: "length (velocities (traj c)) = n_frames (traj c)"
    and fr: "length fr = n_frames (traj c)"
    and fgi: "final_group_indices gs \<noteq> []"
  shows "transform_chunks c km kv mp fr gs mode kgs cs ws =
     (ws @ (if length kv = 0 then [WarnEmptyKVectors] else []),
      if mode = ''coherent'' \<or> length gs \<le> 1
      then \<lparr>sed = ComplexData (map (\<lambda>w. map (group_cell c (final_group_indices gs) mp w) kv)
                                 [0..<n_frames (traj c)]),
            sed_shape = [length fr, length kv, 3], freqs = fr, k_points = km, k_vectors = kv,
            k_grid_shape = kgs, is_complex = True, phase = None\<rparr>
      else \<lparr>sed = RealData (map (\<lambda>w. map (incoherent_cell c gs mp w) kv) [0..<n_frames (traj c)]),
            sed_shape = [length fr, length kv], freqs = fr, k_points = km, k_vectors = kv,
            k_grid_shape = kgs, is_complex = False, phase = None\<rparr>)"
proof -
  define a where "a = (if length kv > 0 then nat (min (max 1 cs) (int (length kv))) else 1)"
  define j where "j = (if length kv > 0 then (length kv + a - 1) div a else 0)"
  have a0: "0 < a" by (auto simp: a_def)
  have cover: "length kv \<le> j * a"
    using num_chunks_cover [OF a0, of "length kv"] by (simp add: j_def)
  note plan = a0 cover
  have unf: "transform_chunks c km kv mp fr gs mode kgs cs ws =
     (let ws1 = ws @ (if length kv = 0 then [WarnEmptyKVectors] else [])
      in if mode = ''coherent'' \<or> length gs \<le> 1
         then
           let r = fold (coherent_chunk c kv gs mp a) [0..<j]
                     (ws1, replicate (n_frames (traj c)) (replicate (length kv) [0, 0, 0]))
           in (fst r,
               \<lparr>sed = ComplexData (snd r), sed_shape = [length fr, length kv, 3],
                freqs = fr, k_points = km, k_vectors = kv, k_grid_shape = kgs,
                is_complex = True, phase = None\<rparr>)
         else
           let r = fold (incoherent_chunk c kv gs mp (n_frames (traj c)) a) [0..<j]
                     (ws1, replicate (n_frames (traj c)) (replicate (length kv) 0))
           in (fst r,
               \<lparr>sed = RealData (snd r), sed_shape = [length fr, length kv],
                freqs = fr, k_points = km, k_vectors = kv, k_grid_shape = kgs,
                is_complex = False, phase = None\<rparr>))"
    unfolding transform_chunks_def Let_def a_def j_def fr by (rule refl)
  show ?thesis
    unfolding unf Let_def coherent_fold [OF wf fgi plan] incoherent_fold [OF wf plan]
    by simp
qed

lemma calculate_main:
  assumes "mode = ''coherent'' \<or> mode = ''incoherent''"
    and "0 < n_frames (traj c)" and "0 < n_atoms (traj c)"
  shows "calculate c km kv bi bt mode kgs cs =
     (case determine_atom_groups (traj c) bi bt mode of
        (ws, Inl e) \<Rightarrow> (ws, Inl e)
      | (ws, Inr atom_groups) \<Rightarrow>
          (let r = transform_chunks c km kv (mean_axis0 (positions (traj c)) (n_atoms (traj c)))
                     (fftfreq (n_frames (traj c)) (dt_ps c)) atom_groups mode kgs cs ws
           in (fst r, Inr (snd r))))"
  using assms by (auto simp: calculate_def Let_def)

lemma calculate_invalid_mode:
  "\<not> (mode = ''coherent'' \<or> mode = ''incoherent'') \<Longrightarrow>
   calculate c km kv bi bt mode kgs cs = ([], Inl ValueError)"
  by (simp add: calculate_def)

lemma calculate_degenerate:
  assumes "mode = ''coherent'' \<or> mode = ''incoherent''"
    and "n_frames (traj c) = 0 \<or> n_atoms (traj c) = 0"
  shows "calculate c km kv bi bt mode kgs cs =
     ([WarnZeroFramesOrAtoms],
      Inr \<lparr>sed = ComplexData [], sed_shape = [0, 0, 3], freqs = [], k_points = km,
           k_vectors = kv, k_grid_shape = kgs, is_complex = True, phase = None\<rparr>)"
  using assms by (auto simp: calculate_def Let_def)

lemma calculate_closed:
  assumes wf: "length (velocities (traj c)) = n_frames (traj c)"
  shows "calculate c km kv bi bt mode kgs cs = calculate c km kv bi bt mode kgs cs'"
proof (cases "mode = ''coherent'' \<or> mode = ''incoherent''")
  case False
  then show ?thesis by (simp add: calculate_invalid_mode)
next
  case valid: True
  show ?thesis
  proof (cases "n_frames (traj c) = 0 \<or> n_atoms (traj c) = 0")
    case True
    then show ?thesis by (simp add: calculate_degenerate [OF valid])
  next
    case False
    then have pos: "0 < n_frames (traj c)" "0 < n_atoms (traj c)" by simp_all
    show ?thesis
    proof (cases "determine_atom_groups (traj c) bi bt mode")
      case (Pair ws res)
      show ?thesis
      proof (cases res)
        case (Inl e)
        then show ?thesis by (simp add: calculate_main [OF valid pos] Pair)
      next
        case (Inr gs)
        from determine_atom_groups_nonempty [OF Pair [unfolded Inr] pos(2)]
        have "final_group_indices gs \<noteq> []" by (intro final_group_indices_nonempty) simp_all
        then show ?thesis
          by (simp add: calculate_main [OF valid pos] Pair Inr
              transform_chunks_closed [OF wf _ _] Let_def)
      qed
    qed
  qed
qed

lemma example_calculate_coherent:
  "calculate example_calc [0, 1] [(0, 0, 0), (1, 0, 0)] None None ''coherent'' None 2 =
     ([], Inr \<lparr>sed = ComplexData [[[1, 1, 0], [1, 1, 0]]], sed_shape = [1, 2, 3], freqs = [0],
               k_points = [0, 1], k_vectors = [(0, 0, 0), (1, 0, 0)], k_grid_shape = None,
               is_complex = True, phase = None\<rparr>)"
  by (simp add: calculate_def example_calc_def example_traj_def n_frames_def n_atoms_def Let_def
      determine_atom_groups_def basis_atom_groups_def transform_chunks_def coherent_chunk_def
      final_group_indices_def calculate_sed_for_group_def fft_axis0_def twiddle_def
      assign_cols_def mean_axis0_def fftfreq_def upt_rec)

lemma example_calculate_incoherent:
  "calculate example_calc [0, 1] [(0, 0, 0), (1, 0, 0)] None (Some (BT_list [PInt 1, PInt 2]))
      ''incoherent'' None 1 =
     ([], Inr \<lparr>sed = RealData [[2, 2]], sed_shape = [1, 2], freqs = [0],
               k_points = [0, 1], k_vectors = [(0, 0, 0), (1, 0, 0)], k_grid_shape = None,
               is_complex = False, phase = None\<rparr>)"
  by (simp add: calculate_def example_calc_def example_traj_def n_frames_def n_atoms_def Let_def
      determine_atom_groups_def basis_atom_groups_def transform_chunks_def incoherent_chunk_def
      process_basis_atom_types_def atoms_of_types_def power_pol_def
      final_group_indices_def calculate_sed_for_group_def fft_axis0_def twiddle_def
      assign_cols_def mean_axis0_def fftfreq_def upt_rec)

text \<open>
  C2: for a trajectory whose velocity array has as many frames as its position array, the
  result of \<^verbatim>\<open>calculate\<close> (the log, the error or the SED entity with its array) is the same
  for every \<^verbatim>\<open>k_chunk_size\<close> as for the chunk size \<^verbatim>\<open>len(k_vectors_3d)\<close>, which processes
  all k-vectors in one chunk. The lemma \<open>transform_chunks_closed\<close> gives the array itself:
  column \<open>k\<close> of row \<open>w\<close> is \<open>group_cell\<close> (coherent) or \<open>incoherent_cell\<close> at \<open>w\<close> and \<open>k\<close>.
\<close>

theorem calculate_chunk_size_invariant:
  assumes "length (velocities (traj c)) = n_frames (traj c)"
  shows "calculate c km kv bi bt mode kgs cs = calculate c km kv bi bt mode kgs (int (length kv))"
  using assms by (rule calculate_closed)

theorem calculate_chunk_size_invariant_witness:
  "calculate example_calc [0, 1] [(0, 0, 0), (1, 0, 0)] None None ''coherent'' None 1 =
     ([], Inr \<lparr>sed = ComplexData [[[1, 1, 0], [1, 1, 0]]], sed_shape = [1, 2, 3], freqs = [0],
               k_points = [0, 1], k_vectors = [(0, 0, 0), (1, 0, 0)], k_grid_shape = None,
               is_complex = True, phase = None\<rparr>)"
proof -
  have wf: "length (velocities (traj example_calc)) = n_frames (traj example_calc)"
    by (simp add: example_calc_def example_traj_def n_frames_def)
  from calculate_chunk_size_invariant [OF wf, of "[0, 1]" "[(0, 0, 0), (1, 0, 0)]" None None
      "''coherent''" None 1]
  show ?thesis by (simp add: example_calculate_coherent)
qed

text \<open>
  C8: the k-axis of the returned array should be as long as the list of k-vectors. On the
  degenerate path (no frames, or no atoms) \<^verbatim>\<open>calculate\<close> returns an array of shape
  \<^verbatim>\<open>(0, 0, 3)\<close> whatever the k-vectors are: for a trajectory without frames and one
  k-vector the k-axis has length 0. On the regular path the invariant holds (lemma
  \<open>calculate_shape_invariant\<close> below), and \<^verbatim>\<open>_calculate_sed_for_group\<close> keeps the k-axis for
  zero frames (\<^verbatim>\<open>reshape(0, n_k_vecs, 3)\<close>).
\<close>

theorem calculate_degenerate_k_axis:
  "calculate no_frames_calc [1] [(1, 0, 0)] None None ''coherent'' None 500 =
     ([WarnZeroFramesOrAtoms],
      Inr \<lparr>sed = ComplexData [], sed_shape = [0, 0, 3], freqs = [], k_points = [1],
           k_vectors = [(1, 0, 0)], k_grid_shape = None, is_complex = True, phase = None\<rparr>) \<and>
   [0, 0, 3 :: nat] ! 1 \<noteq> length [(1 :: real, 0 :: real, 0 :: real)]"
  by (simp add: calculate_def no_frames_calc_def n_frames_def n_atoms_def)

lemma calculate_shape_invariant:
  assumes wf: "length (velocities (traj c)) = n_frames (traj c)"
    and pos: "0 < n_frames (traj c)" "0 < n_atoms (traj c)"
    and res: "calculate c km kv bi bt mode kgs cs = (ws, Inr s)"
  shows "sed_shape s ! 0 = length (freqs s) \<and> sed_shape s ! 1 = length (k_vectors s) \<and>
         k_vectors s = kv \<and> length (freqs s) = n_frames (traj c) \<and>
         (case sed s of
            ComplexData X \<Rightarrow> length X = length (freqs s) \<and> list_all (\<lambda>row. length row = length kv) X
          | RealData I \<Rightarrow> length I = length (freqs s) \<and> list_all (\<lambda>row. length row = length kv) I)"
proof -
  have valid: "mode = ''coherent'' \<or> mode = ''incoherent''"
    using res by (rule contrapos_pp) (simp add: calculate_invalid_mode)
  obtain ws0 r where d: "determine_atom_groups (traj c) bi bt mode = (ws0, r)"
    by (cases "determine_atom_groups (traj c) bi bt mode")
  from res obtain gs where r: "r = Inr gs"
    by (cases r) (simp_all add: calculate_main [OF valid pos] d)
  from determine_atom_groups_nonempty [OF d [unfolded r] pos(2)]
  have fgi: "final_group_indices gs \<noteq> []" by (intro final_group_indices_nonempty) simp_all
  from res show ?thesis
    by (auto simp: calculate_main [OF valid pos] d r transform_chunks_closed [OF wf _ fgi]
        Let_def list_all_iff split: if_splits)
qed

subsection \<open>One atom group\<close>

lemma atoms_of_types_mem:
  "a \<in> set (atoms_of_types tys tg) \<longleftrightarrow> a < length tys \<and> tys ! a \<in> set tg"
  by (auto simp: atoms_of_types_def)

lemma singles_all_empty:
  assumes "filter (\<lambda>g. g \<noteq> []) (map (\<lambda>t. atoms_of_types tys [t]) ts) = []"
  shows "atoms_of_types tys ts = []"
proof (rule ccontr)
  assume "atoms_of_types tys ts \<noteq> []"
  then obtain a where "a \<in> set (atoms_of_types tys ts)" by (meson last_in_set)
  then have a: "a < length tys" "tys ! a \<in> set ts" by (simp_all add: atoms_of_types_mem)
  then have "a \<in> set (atoms_of_types tys [tys ! a])" by (simp add: atoms_of_types_mem)
  then have "atoms_of_types tys [tys ! a] \<noteq> []" by auto
  with a(2) have "atoms_of_types tys [tys ! a] \<in> set (filter (\<lambda>g. g \<noteq> []) (map (\<lambda>t. atoms_of_types tys [t]) ts))"
    by auto
  with assms show False by simp
qed

lemma atoms_of_types_Cons_left:
  assumes "atoms_of_types tys ts = []"
  shows "atoms_of_types tys (t # ts) = atoms_of_types tys [t]"
proof -
  have "\<And>a. a < length tys \<Longrightarrow> tys ! a \<notin> set ts"
    using assms by (metis atoms_of_types_mem empty_iff list.set(1))
  then show ?thesis
    unfolding atoms_of_types_def by (intro filter_cong) auto
qed

lemma atoms_of_types_Cons_right:
  assumes "atoms_of_types tys [t] = []"
  shows "atoms_of_types tys (t # ts) = atoms_of_types tys ts"
proof -
  have "\<And>a. a < length tys \<Longrightarrow> tys ! a \<noteq> t"
    using assms by (metis atoms_of_types_mem empty_iff list.set(1) list.set_intros(1))
  then show ?thesis
    unfolding atoms_of_types_def by (intro filter_cong) auto
qed

lemma singles_one_group:
  assumes "filter (\<lambda>g. g \<noteq> []) (map (\<lambda>t. atoms_of_types tys [t]) ts) = [g]"
  shows "atoms_of_types tys ts = g \<and> g \<noteq> []"
  using assms
proof (induction ts)
  case Nil
  then show ?case by simp
next
  case (Cons t ts)
  show ?case
  proof (cases "atoms_of_types tys [t] = []")
    case True
    with Cons.prems have "filter (\<lambda>g. g \<noteq> []) (map (\<lambda>t. atoms_of_types tys [t]) ts) = [g]"
      by simp
    from Cons.IH [OF this] show ?thesis by (simp add: atoms_of_types_Cons_right [OF True])
  next
    case False
    with Cons.prems have g: "g = atoms_of_types tys [t]"
      and rest: "filter (\<lambda>g. g \<noteq> []) (map (\<lambda>t. atoms_of_types tys [t]) ts) = []"
      by simp_all
    from singles_all_empty [OF rest] False show ?thesis
      by (simp add: g atoms_of_types_Cons_left)
  qed
qed

lemma process_types_modes:
  "process_basis_atom_types b ''incoherent'' = process_basis_atom_types b ''coherent'' \<or>
   (\<exists>ts. ts \<noteq> [] \<and> process_basis_atom_types b ''incoherent'' = Inr (map (\<lambda>t. [t]) ts) \<and>
         process_basis_atom_types b ''coherent'' = Inr [ts])"
proof (cases b)
  case (BT_list items)
  show ?thesis
  proof (cases "items \<noteq> [] \<and> \<not> list_all is_PList items \<and> list_all is_PInt items")
    case True
    then have "map pint_of items \<noteq> [] \<and>
        process_basis_atom_types b ''incoherent'' = Inr (map (\<lambda>t. [t]) (map pint_of items)) \<and>
        process_basis_atom_types b ''coherent'' = Inr [map pint_of items]"
      by (simp add: process_basis_atom_types_def BT_list comp_def)
    then show ?thesis by blast
  next
    case False
    then show ?thesis by (auto simp: process_basis_atom_types_def BT_list)
  qed
qed (simp_all add: process_basis_atom_types_def)

lemma determine_snd:
  "snd (determine_atom_groups tr bi bt mode) =
     (case snd (basis_atom_groups tr bi bt mode) of
        Inl e \<Rightarrow> Inl e
      | Inr g0 \<Rightarrow> Inr (if g0 = [] then [[0..<n_atoms tr]] else g0))"
  by (simp add: determine_atom_groups_def split: prod.splits sum.splits)

lemma basis_snd_types:
  "snd (basis_atom_groups tr bi (Some b) mode) =
     (case process_basis_atom_types b mode of
        Inl e \<Rightarrow> Inl e
      | Inr p \<Rightarrow> Inr (filter (\<lambda>g. g \<noteq> []) (map (atoms_of_types (atom_types tr)) p)))"
  by (simp add: basis_atom_groups_def Let_def type_groups_snd split: sum.splits)

lemma single_group_incoherent_coherent:
  assumes "snd (determine_atom_groups tr bi bt ''incoherent'') = Inr [g]"
  shows "snd (determine_atom_groups tr bi bt ''coherent'') = Inr [g]"
proof (cases bt)
  case None
  with assms show ?thesis
    by (simp add: determine_atom_groups_def basis_atom_groups_def)
next
  case (Some b)
  from process_types_modes [of b] show ?thesis
  proof
    assume "process_basis_atom_types b ''incoherent'' = process_basis_atom_types b ''coherent''"
    with assms show ?thesis
      by (simp add: determine_atom_groups_def basis_atom_groups_def Some Let_def)
  next
    assume "\<exists>ts. ts \<noteq> [] \<and> process_basis_atom_types b ''incoherent'' = Inr (map (\<lambda>t. [t]) ts) \<and>
         process_basis_atom_types b ''coherent'' = Inr [ts]"
    then obtain ts where inc: "process_basis_atom_types b ''incoherent'' = Inr (map (\<lambda>t. [t]) ts)"
      and coh: "process_basis_atom_types b ''coherent'' = Inr [ts]" by blast
    define S where "S = filter (\<lambda>g. g \<noteq> []) (map (\<lambda>t. atoms_of_types (atom_types tr) [t]) ts)"
    have b_inc: "snd (basis_atom_groups tr bi bt ''incoherent'') = Inr S"
      by (simp add: basis_snd_types Some inc S_def comp_def)
    have b_coh: "snd (basis_atom_groups tr bi bt ''coherent'') =
        Inr (filter (\<lambda>g. g \<noteq> []) [atoms_of_types (atom_types tr) ts])"
      by (simp add: basis_snd_types Some coh)
    from assms have S: "(if S = [] then [[0..<n_atoms tr]] else S) = [g]"
      unfolding determine_snd b_inc by simp
    have c: "snd (determine_atom_groups tr bi bt ''coherent'') =
        Inr (if atoms_of_types (atom_types tr) ts = [] then [[0..<n_atoms tr]]
             else [atoms_of_types (atom_types tr) ts])"
      unfolding determine_snd b_coh by simp
    show ?thesis
    proof (cases "S = []")
      case True
      with S have "g = [0..<n_atoms tr]" by simp
      moreover have "atoms_of_types (atom_types tr) ts = []"
        using True unfolding S_def by (rule singles_all_empty)
      ultimately show ?thesis by (simp add: c)
    next
      case False
      with S have "S = [g]" by simp
      from singles_one_group [OF this [unfolded S_def]] show ?thesis by (simp add: c)
    qed
  qed
qed

lemma transform_chunks_single_group:
  "length gs \<le> 1 \<Longrightarrow>
   transform_chunks c km kv mp fr gs ''incoherent'' kgs cs ws =
   transform_chunks c km kv mp fr gs ''coherent'' kgs cs ws"
  by (simp add: transform_chunks_def)

lemma calculate_snd_groups:
  assumes "mode = ''coherent'' \<or> mode = ''incoherent''"
    and "snd (determine_atom_groups (traj c) bi bt mode) = Inr gs"
  shows "snd (calculate c km kv bi bt mode kgs cs) =
     (if n_frames (traj c) = 0 \<or> n_atoms (traj c) = 0
      then Inr \<lparr>sed = ComplexData [], sed_shape = [0, 0, 3], freqs = [], k_points = km,
                k_vectors = kv, k_grid_shape = kgs, is_complex = True, phase = None\<rparr>
      else Inr (snd (transform_chunks c km kv (mean_axis0 (positions (traj c)) (n_atoms (traj c)))
                       (fftfreq (n_frames (traj c)) (dt_ps c)) gs mode kgs cs [])))"
proof (cases "n_frames (traj c) = 0 \<or> n_atoms (traj c) = 0")
  case True
  then show ?thesis by (simp add: calculate_degenerate [OF assms(1)])
next
  case False
  then have pos: "0 < n_frames (traj c)" "0 < n_atoms (traj c)" by simp_all
  obtain ws where d: "determine_atom_groups (traj c) bi bt mode = (ws, Inr gs)"
    using assms(2) by (cases "determine_atom_groups (traj c) bi bt mode") simp
  show ?thesis
    using False
    by (simp add: calculate_main [OF assms(1) pos] d Let_def
        transform_chunks_snd [of c km kv _ _ gs mode kgs cs ws "[]"])
qed

text \<open>
  C3: when the basis selection of the \<^verbatim>\<open>'incoherent'\<close> call yields exactly one atom group,
  the two modes return the same SED entity: the coherent path is taken in both, the result
  is complex, and the total power (the squared magnitude summed over the polarization
  axis) is the same at every (frequency, k) index because the arrays are the same.
\<close>

theorem single_group_modes_coincide:
  assumes "snd (determine_atom_groups (traj c) bi bt ''incoherent'') = Inr [g]"
  shows "\<exists>s. snd (calculate c km kv bi bt ''incoherent'' kgs cs) = Inr s \<and>
             snd (calculate c km kv bi bt ''coherent'' kgs cs) = Inr s \<and>
             is_complex s \<and> (\<exists>X. sed s = ComplexData X \<and> total_power s = power_pol X)"
proof -
  note coh = single_group_incoherent_coherent [OF assms]
  have i: "snd (calculate c km kv bi bt ''incoherent'' kgs cs) = 
     (if n_frames (traj c) = 0 \<or> n_atoms (traj c) = 0
      then Inr \<lparr>sed = ComplexData [], sed_shape = [0, 0, 3], freqs = [], k_points = km,
                k_vectors = kv, k_grid_shape = kgs, is_complex = True, phase = None\<rparr>
      else Inr (snd (transform_chunks c km kv (mean_axis0 (positions (traj c)) (n_atoms (traj c)))
                       (fftfreq (n_frames (traj c)) (dt_ps c)) [g] ''coherent'' kgs cs [])))"
    by (simp add: calculate_snd_groups [OF _ assms] transform_chunks_single_group)
  have k: "snd (calculate c km kv bi bt ''coherent'' kgs cs) = 
     (if n_frames (traj c) = 0 \<or> n_atoms (traj c) = 0
      then Inr \<lparr>sed = ComplexData [], sed_shape = [0, 0, 3], freqs = [], k_points = km,
                k_vectors = kv, k_grid_shape = kgs, is_complex = True, phase = None\<rparr>
      else Inr (snd (transform_chunks c km kv (mean_axis0 (positions (traj c)) (n_atoms (traj c)))
                       (fftfreq (n_frames (traj c)) (dt_ps c)) [g] ''coherent'' kgs cs [])))"
    by (simp add: calculate_snd_groups [OF _ coh])
  have t: "is_complex (snd (transform_chunks c km kv mp fr [g] ''coherent'' kgs cs [])) \<and>
      (\<exists>X. sed (snd (transform_chunks c km kv mp fr [g] ''coherent'' kgs cs [])) = ComplexData X)"
    for mp fr
    by (simp add: transform_chunks_def Let_def)
  show ?thesis
  proof (cases "n_frames (traj c) = 0 \<or> n_atoms (traj c) = 0")
    case True
    then show ?thesis by (simp add: i k total_power_def)
  next
    case False
    define s where "s = snd (transform_chunks c km kv
        (mean_axis0 (positions (traj c)) (n_atoms (traj c)))
        (fftfreq (n_frames (traj c)) (dt_ps c)) [g] ''coherent'' kgs cs [])"
    from t obtain X where "is_complex s" "sed s = ComplexData X" unfolding s_def by blast
    moreover from this have "total_power s = power_pol X" by (simp add: total_power_def)
    moreover have "snd (calculate c km kv bi bt ''incoherent'' kgs cs) = Inr s"
      "snd (calculate c km kv bi bt ''coherent'' kgs cs) = Inr s"
      using False by (simp_all add: i k s_def)
    ultimately show ?thesis by blast
  qed
qed

theorem single_group_modes_coincide_witness:
  "snd (determine_atom_groups (traj example_calc) None (Some (BT_list [PInt 1, PInt 3])) ''incoherent'')
     = Inr [[0]] \<and>
   snd (calculate example_calc [0, 1] [(0, 0, 0), (1, 0, 0)] None (Some (BT_list [PInt 1, PInt 3]))
          ''incoherent'' None 500) =
   snd (calculate example_calc [0, 1] [(0, 0, 0), (1, 0, 0)] None (Some (BT_list [PInt 1, PInt 3]))
          ''coherent'' None 500)"
proof -
  have d: "snd (determine_atom_groups (traj example_calc) None (Some (BT_list [PInt 1, PInt 3]))
      ''incoherent'') = Inr [[0]]"
    by (simp add: determine_atom_groups_def basis_atom_groups_def process_basis_atom_types_def
        atoms_of_types_def example_calc_def example_traj_def Let_def upt_rec)
  from single_group_modes_coincide [OF d, of "[0, 1]" "[(0, 0, 0), (1, 0, 0)]" None 500] d
  show ?thesis by auto
qed

subsection \<open>Inverse reconstruction\<close>

text \<open>
  The loop over the groups of \<^verbatim>\<open>ised\<close> writes only to the atoms of the groups, so the
  displacement of every other atom stays zero, and the final rescaling, which multiplies the
  atoms of the groups only, multiplies the whole displacement field.
\<close>

lemma zero_outsideI:
  assumes "\<And>frame a. frame \<in> set W \<Longrightarrow> a < length frame \<Longrightarrow> a \<notin> S \<Longrightarrow>
            list_all (\<lambda>x. x = 0) (take 3 (frame ! a))"
  shows "zero_outside S W"
  using assms by (auto simp: zero_outside_def list_all_iff)

lemma zero_outsideD:
  assumes "zero_outside S W" "frame \<in> set W" "a < length frame" "a \<notin> S"
  shows "list_all (\<lambda>x. x = 0) (take 3 (frame ! a))"
proof -
  from assms(1,2) have "\<forall>a\<in>{0..<length frame}. a \<in> S \<or> list_all (\<lambda>x. x = 0) (take 3 (frame ! a))"
    by (auto simp: zero_outside_def list_all_iff)
  with assms(3,4) show ?thesis by auto
qed

lemma fold_update_length:
  "length (fold (\<lambda>(a, v) frame. frame[a := F a v]) ps fr) = length fr"
  by (induction ps arbitrary: fr) (auto split: prod.splits)

lemma fold_update_other:
  "b \<notin> fst ` set ps \<Longrightarrow> fold (\<lambda>(a, v) frame. frame[a := F a v]) ps fr ! b = fr ! b"
  by (induction ps arbitrary: fr) (auto split: prod.splits)

lemma add_motion_frame_length [simp]:
  "length (add_motion_frame old grp pol vals) = length old"
  by (simp add: add_motion_frame_def fold_update_length)

lemma add_motion_frame_other:
  assumes "b \<notin> set grp"
  shows "add_motion_frame old grp pol vals ! b = old ! b"
proof -
  have "b \<notin> fst ` set (zip grp vals)" using assms by (auto dest: set_zip_leftD)
  then show ?thesis by (simp add: add_motion_frame_def fold_update_other)
qed

lemma add_motion_zero_outside:
  assumes "zero_outside S W" "set grp \<subseteq> S"
  shows "zero_outside S (add_motion W grp pol recon)"
proof (rule zero_outsideI)
  fix frame a
  assume f: "frame \<in> set (add_motion W grp pol recon)" and a: "a < length frame" "a \<notin> S"
  from f obtain old vals where old: "old \<in> set W"
    and frame: "frame = add_motion_frame old grp pol vals"
    by (auto simp: add_motion_def dest: set_zip_leftD)
  from a assms(2) have "a \<notin> set grp" by auto
  then have "frame ! a = old ! a" by (simp add: frame add_motion_frame_other)
  moreover have "a < length old" using a(1) by (simp add: frame)
  ultimately show "list_all (\<lambda>x. x = 0) (take 3 (frame ! a))"
    using zero_outsideD [OF assms(1) old _ a(2)] by simp
qed

lemma fold_add_motion_zero_outside:
  assumes "zero_outside S W" "set grp \<subseteq> S"
  shows "zero_outside S (fold (\<lambda>pol W. add_motion W grp pol (R pol)) pols W)"
  using assms(1) by (induction pols arbitrary: W) (simp_all add: add_motion_zero_outside assms(2))

lemma ised_group_step_zero_outside:
  assumes "ised_group_step c km kv ki ka wt tp pp avg auto grp st = Inr st'"
    and "zero_outside S (st_wiggles st)" and "set grp \<subseteq> S"
  shows "zero_outside S (st_wiggles st')"
proof (cases "grp = []")
  case True
  with assms(1,2) show ?thesis by (simp add: ised_group_step_def)
next
  case False
  have z: "zero_outside S (fold (\<lambda>pol W. add_motion W grp pol (R pol)) [0, 1, 2] (st_wiggles st))" for R
    using assms(2,3) by (rule fold_add_motion_zero_outside)
  from assms(1) False obtain R where
    "st_wiggles st' = fold (\<lambda>pol W. add_motion W grp pol (R pol)) [0, 1, 2] (st_wiggles st)"
    unfolding ised_group_step_def Let_def
    by (auto split: sum.splits sed_data.splits if_splits)
  then show ?thesis by (simp only: z)
qed

lemma ised_loop_zero_outside:
  assumes "ised_loop (ised_group_step c km kv ki ka wt tp pp avg auto) gs st = Inr st'"
    and "zero_outside S (st_wiggles st)" and "set (concat gs) \<subseteq> S"
  shows "zero_outside S (st_wiggles st')"
  using assms
proof (induction gs arbitrary: st)
  case Nil
  then show ?case by simp
next
  case (Cons g gs)
  from Cons.prems(1) obtain st1 where
    s1: "ised_group_step c km kv ki ka wt tp pp avg auto g st = Inr st1"
    and rest: "ised_loop (ised_group_step c km kv ki ka wt tp pp avg auto) gs st1 = Inr st'"
    by (auto split: sum.splits)
  from Cons.prems(3) have sub: "set g \<subseteq> S" "set (concat gs) \<subseteq> S" by auto
  from ised_group_step_zero_outside [OF s1 Cons.prems(2) sub(1)]
  show ?case by (rule Cons.IH [OF rest _ sub(2)])
qed

lemma zero_outside_init:
  "zero_outside S (replicate n (replicate m (replicate 4 0)))"
  by (rule zero_outsideI) (auto simp: list_all_iff dest: in_set_takeD)

lemma take3_scale_first3: "take 3 (scale_first3 op cell) = map op (take 3 cell)"
  by (cases "3 \<le> length cell") (simp_all add: scale_first3_def)

lemma scale_first3_id: "scale_first3 (\<lambda>x. x) cell = cell"
  by (simp add: scale_first3_def)

lemma scale_atoms_id: "scale_atoms idx (\<lambda>x. x) W = W"
  by (simp add: scale_atoms_def scale_first3_id map_nth cong: if_cong)

lemma scale_atoms_one: "scale_atoms idx (\<lambda>x. x * 1) W = W"
  by (simp add: scale_atoms_id)

lemma scale_atoms_Nil: "scale_atoms [] op W = W"
  by (simp add: scale_atoms_def map_nth)

lemma zeros_double:
  "list_all (\<lambda>x. x = 0) xs \<Longrightarrow> map (\<lambda>x. 2 * x) xs = (xs :: real list)"
  by (induction xs) simp_all

lemma scale_atoms_two:
  assumes "zero_outside (set idx) W"
  shows "map (map (take 3)) (scale_atoms idx (\<lambda>x. x * 2) W) =
         map (map (map (\<lambda>x. 2 * x))) (map (map (take 3)) W)"
proof -
  have "map (take 3)
          (map (\<lambda>a. if a \<in> set idx then scale_first3 (\<lambda>x. x * 2) (frame ! a) else frame ! a)
             [0..<length frame]) =
        map (map (\<lambda>x. 2 * x)) (map (take 3) frame)" if f: "frame \<in> set W" for frame
  proof -
    have "map (map (\<lambda>x. 2 * x)) (map (take 3) frame) =
          map (\<lambda>a. map (\<lambda>x. 2 * x) (take 3 (frame ! a))) [0..<length frame]"
      by (subst (1) map_nth [of frame, symmetric]) (simp only: map_map comp_def)
    also have "\<dots> = map (\<lambda>a. take 3 (if a \<in> set idx then scale_first3 (\<lambda>x. x * 2) (frame ! a)
                                     else frame ! a)) [0..<length frame]"
    proof (rule map_cong [OF refl])
      fix a assume "a \<in> set [0..<length frame]"
      then have a: "a < length frame" by simp
      show "map (\<lambda>x. 2 * x) (take 3 (frame ! a)) =
            take 3 (if a \<in> set idx then scale_first3 (\<lambda>x. x * 2) (frame ! a) else frame ! a)"
      proof (cases "a \<in> set idx")
        case True
        then show ?thesis by (simp add: take3_scale_first3 mult.commute)
      next
        case False
        from zero_outsideD [OF assms f a False] show ?thesis
          using False by (simp add: zeros_double)
      qed
    qed
    finally show ?thesis by (simp add: comp_def)
  qed
  then show ?thesis by (simp add: scale_atoms_def)
qed

lemma zero_outside_type_store:
  assumes "zero_outside S (frame0 # rest)"
  shows "zero_outside S (map2 (\<lambda>cell ty. cell[3 := real_of_int ty]) frame0 tys # rest)"
proof (rule zero_outsideI)
  fix frame a
  assume f: "frame \<in> set (map2 (\<lambda>cell ty. cell[3 := real_of_int ty]) frame0 tys # rest)"
    and a: "a < length frame" "a \<notin> S"
  show "list_all (\<lambda>x. x = 0) (take 3 (frame ! a))"
  proof (cases "frame \<in> set rest")
    case True
    then have "frame \<in> set (frame0 # rest)" by simp
    from zero_outsideD [OF assms this a] show ?thesis .
  next
    case False
    with f have fr: "frame = map2 (\<lambda>cell ty. cell[3 := real_of_int ty]) frame0 tys" by simp
    from a(1) have a0: "a < length frame0" by (simp add: fr)
    from a(1) have "frame ! a = (frame0 ! a)[3 := real_of_int (tys ! a)]" by (simp add: fr)
    then have "take 3 (frame ! a) = take 3 (frame0 ! a)" by simp
    moreover have "list_all (\<lambda>x. x = 0) (take 3 (frame0 ! a))"
      by (rule zero_outsideD [OF assms _ a0 a(2)]) simp
    ultimately show ?thesis by simp
  qed
qed

lemma all_recon_idx_set:
  "set (if gs \<noteq> [] \<and> list_ex (\<lambda>g. g \<noteq> []) gs then sort (remdups (concat gs)) else []) =
   set (concat gs)"
proof (cases "gs \<noteq> [] \<and> list_ex (\<lambda>g. g \<noteq> []) gs")
  case True
  then show ?thesis by simp
next
  case False
  then have "\<forall>g\<in>set gs. g = []" by (auto simp: list_ex_iff)
  then have c: "concat gs = []" by (simp only: concat_eq_Nil_conv)
  show ?thesis unfolding c by simp
qed

lemma ised_finish_rescale_two:
  assumes "zero_outside (set (concat groups)) (st_wiggles st)"
  shows "map_sum id (map_option displacement_field) (ised_finish c avg groups (RNum 2) st) =
         map_sum id (map_option (\<lambda>out. map (map (map (\<lambda>x. 2 * x))) (displacement_field out)))
           (ised_finish c avg groups (RNum 1) st)"
proof (cases "st_recon_done st")
  case False
  then show ?thesis by (simp add: ised_finish_def)
next
  case rd: True
  show ?thesis
  proof (cases "st_wiggles st")
    case Nil
    then show ?thesis using rd by (simp add: ised_finish_def)
  next
    case (Cons frame0 rest)
    define W0 where "W0 = map2 (\<lambda>cell ty. cell[3 := real_of_int ty]) frame0 (atom_types (traj c)) # rest"
    define idx where "idx = (if groups \<noteq> [] \<and> list_ex (\<lambda>g. g \<noteq> []) groups
                             then sort (remdups (concat groups)) else [])"
    have z: "zero_outside (set idx) W0"
      unfolding idx_def all_recon_idx_set W0_def
      using assms unfolding Cons by (rule zero_outside_type_store)
    show ?thesis
    proof (cases "(if groups \<noteq> [] \<and> list_ex (\<lambda>g. g \<noteq> []) groups
                   then sort (remdups (concat groups)) else []) = []")
      case True
      then have "ised_finish c avg groups (RNum f) st =
          Inr (Some \<lparr>out_wiggles = W0,
                     out_final_pos_dump =
                       map (\<lambda>frame. map2 (\<lambda>r cell. add3 r (cell ! 0, cell ! 1, cell ! 2)) avg frame) W0,
                     out_atom_types_dump = map (\<lambda>cell. \<lfloor>cell ! 3\<rfloor>) (hd W0)\<rparr>)" for f
        using rd unfolding ised_finish_def Let_def Cons W0_def by simp
      moreover have "idx = []" using True by (simp add: idx_def)
      ultimately show ?thesis
        using scale_atoms_two [OF z] by (simp add: displacement_field_def scale_atoms_Nil)
    next
      case False
      then have "ised_finish c avg groups (RNum f) st =
          Inr (Some \<lparr>out_wiggles = scale_atoms idx (\<lambda>x. x * f) W0,
                     out_final_pos_dump =
                       map (\<lambda>frame. map2 (\<lambda>r cell. add3 r (cell ! 0, cell ! 1, cell ! 2)) avg frame)
                         (scale_atoms idx (\<lambda>x. x * f) W0),
                     out_atom_types_dump =
                       map (\<lambda>cell. \<lfloor>cell ! 3\<rfloor>) (hd (scale_atoms idx (\<lambda>x. x * f) W0))\<rparr>)" for f
        using rd unfolding ised_finish_def Let_def Cons W0_def idx_def by simp
      then show ?thesis
        by (simp add: displacement_field_def scale_atoms_two [OF z] scale_atoms_id)
    qed
  qed
qed

text \<open>
  A concrete reconstruction: the example trajectory, direction \<open>(1, 0, 0)\<close>, target
  \<open>k = 0\<close> and \<open>\<omega> = 0\<close>, a k-path of two points, all atoms as one group, one
  reconstruction frame and \<^verbatim>\<open>rescale_factor=1\<close>. The amplitude at the matched bin is
  \<open>(1, 1, 0)\<close>, and both atoms are displaced by it.
\<close>

lemma example_ised_atom_groups: "ised_atom_groups example_traj None None = Inr [[0, 1]]"
  by (simp add: ised_atom_groups_def example_traj_def n_atoms_def upt_rec)

lemma example_ised_k_path:
  "get_k_path (\<lambda>s. None) example_calc (DSeq [1, 0, 0]) 1 2 (Some 1) =
     Inr ([0, 2 * pi], [(0, 0, 0), (2 * pi, 0, 0)])"
  by (simp add: get_k_path_def parse_direction_def parse_direction_sda_def
      parse_direction_vec_def norm3_def recip_extent_of_def linspace_def Let_def upt_rec)

lemma example_ised_calculate:
  "calculate example_calc [0, 2 * pi] [(0, 0, 0), (2 * pi, 0, 0)]
      (Some (BI_ndarray (Suc 0) [0, 1])) None ''coherent'' None 500 =
     ([], Inr \<lparr>sed = ComplexData [[[1, 1, 0], [1, 1, 0]]], sed_shape = [1, 2, 3], freqs = [0],
               k_points = [0, 2 * pi], k_vectors = [(0, 0, 0), (2 * pi, 0, 0)], k_grid_shape = None,
               is_complex = True, phase = None\<rparr>)"
  by (simp add: calculate_def example_calc_def example_traj_def n_frames_def n_atoms_def Let_def
      determine_atom_groups_def basis_atom_groups_def transform_chunks_def coherent_chunk_def
      process_basis_atom_indices_def
      final_group_indices_def calculate_sed_for_group_def fft_axis0_def twiddle_def
      assign_cols_def mean_axis0_def fftfreq_def upt_rec)


lemma example_ised_direction: "parse_direction (\<lambda>s. None) (DSeq [1, 0, 0]) = Inr (1, 0, 0)"
  by (simp add: parse_direction_def parse_direction_sda_def parse_direction_vec_def norm3_def)

lemma example_ised_avg_pos: "mean_axis0 (positions example_traj) (n_atoms example_traj) = [(0, 0, 0), (0, 0, 0)]"
  by (simp add: mean_axis0_def example_traj_def n_atoms_def upt_rec)

lemma example_ised_argmin: "argmin [0, 2 * pi] = Inr 0"
  by (simp add: argmin_def)

lemma example_ised_group_step:
  "ised_group_step example_calc [0, 2 * pi] [(0, 0, 0), (2 * pi, 0, 0)] 0 0 0 [0] [0, 0]
      [(0, 0, 0), (0, 0, 0)] False [0, Suc 0]
      \<lparr>st_wiggles = [[[0, 0, 0, 0], [0, 0, 0, 0]]], st_recon_done = False,
       st_max_wiggle_amp_all = 0, st_std_dev_sum = 0, st_n_atoms_recon_sum = 0\<rparr> =
   Inr \<lparr>st_wiggles = [[[1, 1, 0, 0], [1, 1, 0, 0]]], st_recon_done = True,
       st_max_wiggle_amp_all = 0, st_std_dev_sum = 0, st_n_atoms_recon_sum = 0\<rparr>"
  by (simp add: ised_group_step_def example_ised_calculate argmin_def add_motion_def add_motion_frame_def Let_def)

lemma example_ised_rescale_one:
  "ised (\<lambda>s. None) example_calc (DSeq [1, 0, 0]) 0 0 1 2 1 None None (RNum 1) 1 =
     Inr (Some \<lparr>out_wiggles = [[[1, 1, 0, 1], [1, 1, 0, 2]]],
                out_final_pos_dump = [[(1, 1, 0), (1, 1, 0)]],
                out_atom_types_dump = [1, 2]\<rparr>)"
proof -
  have t: "traj example_calc = example_traj" by (simp add: example_calc_def)
  have n: "n_atoms example_traj = 2" by (simp add: example_traj_def n_atoms_def)
  have ty: "atom_types (traj example_calc) = [1, 2]"
    by (simp add: example_calc_def example_traj_def)
  have r: "replicate 2 (replicate 4 (0::real)) = [[0, 0, 0, 0], [0, 0, 0, 0]]"
    by (simp add: eval_nat_numeral)
  show ?thesis
    unfolding ised_def Let_def t example_ised_direction example_ised_avg_pos example_ised_atom_groups
    by (simp add: example_ised_k_path n r example_ised_argmin is_auto_def example_ised_group_step ised_finish_def scale_atoms_def
        scale_first3_def ty upt_rec Let_def)
qed

text \<open>
  Claim C9. For every trajectory, target wave number and frequency, direction, grouping and
  number of reconstruction frames, the displacement field \<^verbatim>\<open>wiggles[:, :, :3]\<close> that
  \<^verbatim>\<open>ised\<close> produces with \<^verbatim>\<open>rescale_factor=2.0\<close> is, element by element, twice the field it
  produces with \<^verbatim>\<open>rescale_factor=1.0\<close>; the two calls raise the same error, or both return
  without a reconstruction, in the same cases.
\<close>

theorem ised_rescale_factor_two:
  "map_sum id (map_option displacement_field)
     (ised pf c k_dir_spec k_target w_target char_len nk bz bidx btypes (RNum 2) n_recon) =
   map_sum id (map_option (\<lambda>out. map (map (map (\<lambda>x. 2 * x))) (displacement_field out)))
     (ised pf c k_dir_spec k_target w_target char_len nk bz bidx btypes (RNum 1) n_recon)"
proof -
  have auto2: "is_auto (RNum f) = False" for f by (simp add: is_auto_def)
  have key: "map_sum id (map_option displacement_field)
       (case ised_loop (ised_group_step c km kv ki ka w_target tp pp avg False) groups
               \<lparr>st_wiggles = replicate n (replicate m (replicate 4 0)), st_recon_done = False,
                st_max_wiggle_amp_all = 0, st_std_dev_sum = 0, st_n_atoms_recon_sum = 0\<rparr> of
          Inl e \<Rightarrow> Inl e
        | Inr st \<Rightarrow> ised_finish c avg groups (RNum 2) st) =
     map_sum id (map_option (\<lambda>out. map (map (map (\<lambda>x. 2 * x))) (displacement_field out)))
       (case ised_loop (ised_group_step c km kv ki ka w_target tp pp avg False) groups
               \<lparr>st_wiggles = replicate n (replicate m (replicate 4 0)), st_recon_done = False,
                st_max_wiggle_amp_all = 0, st_std_dev_sum = 0, st_n_atoms_recon_sum = 0\<rparr> of
          Inl e \<Rightarrow> Inl e
        | Inr st \<Rightarrow> ised_finish c avg groups (RNum 1) st)"
    for km kv ki ka tp pp avg groups n m
  proof (cases "ised_loop (ised_group_step c km kv ki ka w_target tp pp avg False) groups
               \<lparr>st_wiggles = replicate n (replicate m (replicate 4 0)), st_recon_done = False,
                st_max_wiggle_amp_all = 0, st_std_dev_sum = 0, st_n_atoms_recon_sum = 0\<rparr>")
    case (Inl e)
    then show ?thesis by simp
  next
    case (Inr st)
    have "zero_outside (set (concat groups)) (st_wiggles st)"
      by (rule ised_loop_zero_outside [OF Inr]) (simp_all add: zero_outside_init)
    then show ?thesis by (simp add: Inr ised_finish_rescale_two)
  qed
  show ?thesis
    unfolding ised_def Let_def auto2
    by (auto split: sum.splits prod.splits simp: key)
qed

text \<open>
  On the example the field is \<open>(1, 1, 0)\<close> for both atoms with \<^verbatim>\<open>rescale_factor=1\<close>, hence
  \<open>(2, 2, 0)\<close> with \<^verbatim>\<open>rescale_factor=2\<close>.
\<close>

theorem ised_rescale_factor_two_witness:
  "map_sum id (map_option displacement_field)
     (ised (\<lambda>s. None) example_calc (DSeq [1, 0, 0]) 0 0 1 2 1 None None (RNum 2) 1) =
   Inr (Some [[[2, 2, 0], [2, 2, 0]]])"
  using ised_rescale_factor_two [of "\<lambda>s. None" example_calc "DSeq [1, 0, 0]" 0 0 1 2 1 None None 1]
  by (simp add: example_ised_rescale_one displacement_field_def)

end
